theory Spec2Isabelle
  imports Main "HOL-Library.Word" "HOL-Library.AList"
begin

section \<open>The release record of \<open>as-release.c\<close>\<close>

text \<open>
  The development embeds \<open>src/as-release.c\<close>: the private data of an \<open>AsRelease\<close>, its
  accessors, and the three codecs (XML, YAML, binary cache). Pointers that may be \<open>NULL\<close>
  are options, C enumerations are the unsigned machine integers that carry them, and every
  function that mutates \<open>priv\<close> takes the record and returns the new one.
\<close>

subsection \<open>Enumerations\<close>

type_synonym guint32 = "32 word"
type_synonym guint64 = "64 word"

text \<open>
  Modelled from the spec: the enumerators of \<open>AsReleaseKind\<close>, \<open>AsSizeKind\<close> and
  \<open>AsUrgencyKind\<close> are declared in headers that are not among the sources. The spec gives
  Unknown as the zero value of each enumeration, and Download and Installed as the two
  valid size kinds, so that the size array has three slots; \<open>as_release_set_size\<close> itself
  rejects kind \<open>0\<close>. None of the enumerations has a negative enumerator, so the compilers
  the library is built with give them the type \<open>unsigned int\<close>: a kind is a 32-bit word,
  compared as unsigned, which is also how the cache loader reads one (\<open>u\<close>).
\<close>

type_synonym AsReleaseKind = guint32
type_synonym AsSizeKind = guint32
type_synonym AsUrgencyKind = guint32

definition AS_RELEASE_KIND_UNKNOWN :: AsReleaseKind where
  "AS_RELEASE_KIND_UNKNOWN = 0"

definition AS_RELEASE_KIND_STABLE :: AsReleaseKind where
  "AS_RELEASE_KIND_STABLE = 1"

definition AS_RELEASE_KIND_DEVELOPMENT :: AsReleaseKind where
  "AS_RELEASE_KIND_DEVELOPMENT = 2"

definition AS_SIZE_KIND_UNKNOWN :: AsSizeKind where
  "AS_SIZE_KIND_UNKNOWN = 0"

definition AS_SIZE_KIND_DOWNLOAD :: AsSizeKind where
  "AS_SIZE_KIND_DOWNLOAD = 1"

definition AS_SIZE_KIND_INSTALLED :: AsSizeKind where
  "AS_SIZE_KIND_INSTALLED = 2"

definition AS_SIZE_KIND_LAST :: AsSizeKind where
  "AS_SIZE_KIND_LAST = 3"

definition AS_URGENCY_KIND_UNKNOWN :: AsUrgencyKind where
  "AS_URGENCY_KIND_UNKNOWN = 0"

text \<open>\<open>g_strcmp0\<close> accepts \<open>NULL\<close>, so the string conversions take an optional string.\<close>

definition as_release_kind_to_string :: "AsReleaseKind \<Rightarrow> string" where
  "as_release_kind_to_string kind =
     (if kind = AS_RELEASE_KIND_STABLE then ''stable''
      else if kind = AS_RELEASE_KIND_DEVELOPMENT then ''development''
      else ''unknown'')"

definition as_release_kind_from_string :: "string option \<Rightarrow> AsReleaseKind" where
  "as_release_kind_from_string kind_str =
     (if kind_str = Some ''stable'' then AS_RELEASE_KIND_STABLE
      else if kind_str = Some ''development'' then AS_RELEASE_KIND_DEVELOPMENT
      else AS_RELEASE_KIND_UNKNOWN)"

definition as_size_kind_to_string :: "AsSizeKind \<Rightarrow> string" where
  "as_size_kind_to_string size_kind =
     (if size_kind = AS_SIZE_KIND_INSTALLED then ''installed''
      else if size_kind = AS_SIZE_KIND_DOWNLOAD then ''download''
      else ''unknown'')"

definition as_size_kind_from_string :: "string option \<Rightarrow> AsSizeKind" where
  "as_size_kind_from_string size_kind =
     (if size_kind = Some ''download'' then AS_SIZE_KIND_DOWNLOAD
      else if size_kind = Some ''installed'' then AS_SIZE_KIND_INSTALLED
      else AS_SIZE_KIND_UNKNOWN)"

subsection \<open>Collaborators: context and checksum\<close>

text \<open>
  Modelled from the spec: \<open>AsContext\<close> and \<open>AsFormatStyle\<close> are defined outside the
  sources. The spec describes the context as the shared per-document state that exposes a
  locale (possibly unset), a file name and a format style, Collection or Single-Document
  (metainfo); the getters \<open>as_context_get_locale\<close>, \<open>as_context_get_filename\<close> and
  \<open>as_context_get_style\<close> read these three fields, and the codecs only ask whether the
  style is Collection. A release refers to its context by pointer; the record below is
  the context as it is when the release reads it.
\<close>

datatype AsFormatStyle = AS_FORMAT_STYLE_UNKNOWN | AS_FORMAT_STYLE_METAINFO | AS_FORMAT_STYLE_COLLECTION

record AsContext =
  ctx_locale :: "string option"
  ctx_filename :: "string option"
  ctx_style :: AsFormatStyle

definition as_context_get_locale :: "AsContext \<Rightarrow> string option" where
  "as_context_get_locale ctx = ctx_locale ctx"

definition as_context_get_style :: "AsContext \<Rightarrow> AsFormatStyle" where
  "as_context_get_style ctx = ctx_style ctx"

text \<open>
  Modelled from the spec: \<open>AsChecksum\<close> is defined outside the sources. The spec consumes
  only its kind and its load/save contract, and keys a checksum in the binary cache by the
  numeric code of its kind; the payload is the checksum value.
\<close>

record AsChecksum =
  cs_kind :: guint32
  cs_value :: string

definition as_checksum_get_kind :: "AsChecksum \<Rightarrow> guint32" where
  "as_checksum_get_kind cs = cs_kind cs"

subsection \<open>The private data\<close>

text \<open>
  \<open>AsReleasePrivate\<close>. The description is a \<open>GHashTable\<close> from locale to text whose values
  may be \<open>NULL\<close> (\<open>as_release_set_description\<close> stores \<open>g_strdup (NULL)\<close> as it comes), so
  a key maps to an optional text. The size array has \<open>AS_SIZE_KIND_LAST\<close> slots.
\<close>

record AsRelease =
  priv_kind :: AsReleaseKind
  priv_version :: "string option"
  priv_description :: "string \<rightharpoonup> string option"
  priv_timestamp :: guint64
  priv_context :: "AsContext option"
  priv_active_locale_override :: "string option"
  priv_locations :: "string list"
  priv_checksums :: "AsChecksum list"
  priv_size :: "guint64 list"
  priv_urgency :: AsUrgencyKind

text \<open>
  \<open>as_release_new\<close>: the instance memory is zero-filled by the object system, then
  \<open>as_release_init\<close> sets the kind, the containers, the urgency and the sizes.
\<close>

definition as_release_init :: AsRelease where
  "as_release_init =
     \<lparr> priv_kind = AS_RELEASE_KIND_STABLE,
       priv_version = None,
       priv_description = Map.empty,
       priv_timestamp = 0,
       priv_context = None,
       priv_active_locale_override = None,
       priv_locations = [],
       priv_checksums = [],
       priv_size = replicate (unat AS_SIZE_KIND_LAST) 0,
       priv_urgency = AS_URGENCY_KIND_UNKNOWN \<rparr>"

text \<open>The size array of a release has its declared length.\<close>

definition size_array_ok :: "AsRelease \<Rightarrow> bool" where
  "size_array_ok r \<longleftrightarrow> length (priv_size r) = unat AS_SIZE_KIND_LAST"

subsection \<open>Accessors\<close>

definition as_release_set_kind :: "AsRelease \<Rightarrow> AsReleaseKind \<Rightarrow> AsRelease" where
  "as_release_set_kind r kind = r\<lparr>priv_kind := kind\<rparr>"

definition as_release_get_version :: "AsRelease \<Rightarrow> string option" where
  "as_release_get_version r = priv_version r"

definition as_release_set_version :: "AsRelease \<Rightarrow> string option \<Rightarrow> AsRelease" where
  "as_release_set_version r version = r\<lparr>priv_version := version\<rparr>"

definition as_release_set_timestamp :: "AsRelease \<Rightarrow> guint64 \<Rightarrow> AsRelease" where
  "as_release_set_timestamp r timestamp = r\<lparr>priv_timestamp := timestamp\<rparr>"

definition as_release_set_urgency :: "AsRelease \<Rightarrow> AsUrgencyKind \<Rightarrow> AsRelease" where
  "as_release_set_urgency r urgency = r\<lparr>priv_urgency := urgency\<rparr>"

text \<open>
  \<open>g_return_val_if_fail\<close> and \<open>g_return_if_fail\<close> leave the function at once when their
  condition fails, with the given value or with nothing done.
\<close>

definition as_release_get_size :: "AsRelease \<Rightarrow> AsSizeKind \<Rightarrow> guint64" where
  "as_release_get_size r kind =
     (if \<not> kind < AS_SIZE_KIND_LAST then 0
      else priv_size r ! unat kind)"

definition as_release_set_size :: "AsRelease \<Rightarrow> guint64 \<Rightarrow> AsSizeKind \<Rightarrow> AsRelease" where
  "as_release_set_size r sz kind =
     (if \<not> kind < AS_SIZE_KIND_LAST then r
      else if \<not> kind \<noteq> 0 then r
      else r\<lparr>priv_size := (priv_size r)[unat kind := sz]\<rparr>)"

definition as_release_get_active_locale :: "AsRelease \<Rightarrow> string" where
  "as_release_get_active_locale r =
     (let locale =
        (case (priv_context r, priv_active_locale_override r) of
           (Some ctx, None) \<Rightarrow> as_context_get_locale ctx
         | _ \<Rightarrow> priv_active_locale_override r)
      in case locale of None \<Rightarrow> ''C'' | Some l \<Rightarrow> l)"

definition as_release_set_active_locale :: "AsRelease \<Rightarrow> string option \<Rightarrow> AsRelease" where
  "as_release_set_active_locale r locale = r\<lparr>priv_active_locale_override := locale\<rparr>"

text \<open>\<open>g_hash_table_lookup\<close> returns the stored value, or \<open>NULL\<close> when the key is missing.\<close>

definition g_hash_table_lookup :: "(string \<rightharpoonup> string option) \<Rightarrow> string \<Rightarrow> string option" where
  "g_hash_table_lookup tab k = (case tab k of None \<Rightarrow> None | Some v \<Rightarrow> v)"

definition as_release_get_description :: "AsRelease \<Rightarrow> string option" where
  "as_release_get_description r =
     (let desc = g_hash_table_lookup (priv_description r) (as_release_get_active_locale r)
      in if desc = None then g_hash_table_lookup (priv_description r) ''C'' else desc)"

definition as_release_set_description ::
  "AsRelease \<Rightarrow> string option \<Rightarrow> string option \<Rightarrow> AsRelease" where
  "as_release_set_description r description locale =
     (let l = (case locale of None \<Rightarrow> as_release_get_active_locale r | Some l \<Rightarrow> l)
      in r\<lparr>priv_description := (priv_description r)(l \<mapsto> description)\<rparr>)"

definition as_release_add_location :: "AsRelease \<Rightarrow> string \<Rightarrow> AsRelease" where
  "as_release_add_location r location = r\<lparr>priv_locations := priv_locations r @ [location]\<rparr>"

fun first_checksum :: "AsChecksum list \<Rightarrow> guint32 \<Rightarrow> AsChecksum option" where
  "first_checksum [] kind = None"
| "first_checksum (cs # rest) kind =
     (if as_checksum_get_kind cs = kind then Some cs else first_checksum rest kind)"

definition as_release_get_checksum :: "AsRelease \<Rightarrow> guint32 \<Rightarrow> AsChecksum option" where
  "as_release_get_checksum r kind = first_checksum (priv_checksums r) kind"

definition as_release_add_checksum :: "AsRelease \<Rightarrow> AsChecksum \<Rightarrow> AsRelease" where
  "as_release_add_checksum r cs = r\<lparr>priv_checksums := priv_checksums r @ [cs]\<rparr>"

text \<open>
  \<open>as_release_set_context\<close> takes a pointer; \<open>g_object_ref (NULL)\<close> is \<open>NULL\<close>, so the
  stored reference is the argument in either case.
\<close>

definition as_release_set_context :: "AsRelease \<Rightarrow> AsContext option \<Rightarrow> AsRelease" where
  "as_release_set_context r ctx =
     r\<lparr>priv_context := ctx, priv_active_locale_override := None\<rparr>"

subsection \<open>C library: \<open>atol\<close>\<close>

text \<open>
  \<open>atol (nptr)\<close> is \<open>strtol (nptr, NULL, 10)\<close> for a 64-bit \<open>long\<close>: leading white space
  is skipped, one sign is accepted, the longest run of decimal digits is read, and a value
  out of range is clamped to \<open>LONG_MIN\<close> or \<open>LONG_MAX\<close>. Text without digits gives \<open>0\<close>.
\<close>

definition isspace :: "char \<Rightarrow> bool" where
  "isspace c = (let n = (of_char c :: nat) in n = 32 \<or> (9 \<le> n \<and> n \<le> 13))"

definition isdigit :: "char \<Rightarrow> bool" where
  "isdigit c = (let n = (of_char c :: nat) in 48 \<le> n \<and> n \<le> 57)"

definition digit_value :: "char \<Rightarrow> int" where
  "digit_value c = int (of_char c) - 48"

definition LONG_MAX :: int where
  "LONG_MAX = 9223372036854775807"

definition LONG_MIN :: int where
  "LONG_MIN = - 9223372036854775808"

definition atol :: "string \<Rightarrow> int" where
  "atol nptr =
     (let s = dropWhile isspace nptr;
          neg = (case s of [] \<Rightarrow> False | c # _ \<Rightarrow> c = CHR ''-'');
          body = (case s of [] \<Rightarrow> [] | c # rest \<Rightarrow> if c = CHR ''-'' \<or> c = CHR ''+'' then rest else s);
          n = foldl (\<lambda>acc c. 10 * acc + digit_value c) 0 (takeWhile isdigit body);
          v = (if neg then - n else n)
      in max LONG_MIN (min LONG_MAX v))"

section \<open>XML codec\<close>

datatype xmlElementType = XML_ELEMENT_NODE | XML_TEXT_NODE | XML_COMMENT_NODE

text \<open>
  An \<open>xmlNode\<close> of libxml2, as far as the loader reads it: the node type, the name, the
  attributes in document order, the children in sibling order, and the text of a text
  node.
\<close>

datatype xmlNode =
  XmlNode (xn_type: xmlElementType) (xn_name: string)
          (xn_properties: "(string \<times> string) list") (xn_children: "xmlNode list")
          (xn_content: string)

definition xmlGetProp :: "xmlNode \<Rightarrow> string \<Rightarrow> string option" where
  "xmlGetProp node name = map_of (xn_properties node) name"

text \<open>A \<open>GNode\<close> of the YAML document tree: its data and its children.\<close>

datatype GNode = GNode (gn_data: "string option") (gn_children: "GNode list")

text \<open>
  The functions the codecs call that live outside \<open>as-release.c\<close> are parameters of the
  model, one field per function, so that every theorem holds for whatever they compute.
  A \<open>GDateTime\<close> is represented by its unix time, which is what \<open>g_date_time_to_unix\<close>
  reads from it; \<open>as_iso8601_to_datetime\<close> gives \<open>None\<close> for \<open>NULL\<close>, a date it cannot
  parse. \<open>as_checksum_load_from_xml\<close> gives the loaded checksum, or \<open>None\<close> when it
  returns \<open>FALSE\<close>. \<open>as_xml_parse_metainfo_description_node\<close> gives the (locale, text)
  pairs it hands to its callback, in the order of the calls.
\<close>

record externals =
  as_iso8601_to_datetime :: "string option \<Rightarrow> int option"
  as_urgency_kind_from_string :: "string option \<Rightarrow> AsUrgencyKind"
  as_xml_get_node_value :: "xmlNode \<Rightarrow> string"
  g_ascii_strtoull :: "string \<Rightarrow> guint64"
  as_checksum_load_from_xml :: "AsContext \<Rightarrow> xmlNode \<Rightarrow> AsChecksum option"
  as_xml_dump_node_children :: "xmlNode \<Rightarrow> string option"
  as_xmldata_get_node_locale :: "AsContext \<Rightarrow> xmlNode \<Rightarrow> string option"
  as_xml_parse_metainfo_description_node :: "AsContext \<Rightarrow> xmlNode \<Rightarrow> (string \<times> string) list"
  as_yaml_node_get_key :: "GNode \<Rightarrow> string option"
  as_yaml_node_get_value :: "GNode \<Rightarrow> string option"
  as_yaml_get_localized_value :: "AsContext \<Rightarrow> GNode \<Rightarrow> string option"

definition g_date_time_to_unix :: "int \<Rightarrow> int" where
  "g_date_time_to_unix time = time"

definition as_release_parse_xml_metainfo_description_cb ::
  "string \<times> string \<Rightarrow> AsRelease \<Rightarrow> AsRelease" where
  "as_release_parse_xml_metainfo_description_cb kv rel =
     as_release_set_description rel (Some (snd kv)) (Some (fst kv))"

text \<open>The body of the loop over \<open>node->children\<close>, for one child \<open>iter\<close>.\<close>

definition load_xml_child :: "externals \<Rightarrow> AsContext \<Rightarrow> xmlNode \<Rightarrow> AsRelease \<Rightarrow> AsRelease" where
  "load_xml_child X ctx iter r =
     (if xn_type iter \<noteq> XML_ELEMENT_NODE then r
      else if xn_name iter = ''location'' then
        as_release_add_location r (as_xml_get_node_value X iter)
      else if xn_name iter = ''checksum'' then
        (case as_checksum_load_from_xml X ctx iter of
           Some cs \<Rightarrow> as_release_add_checksum r cs
         | None \<Rightarrow> r)
      else if xn_name iter = ''size'' then
        (let prop = xmlGetProp iter ''type'';
             s_kind = as_size_kind_from_string prop
         in if s_kind \<noteq> AS_SIZE_KIND_UNKNOWN then
              (let sz = g_ascii_strtoull X (as_xml_get_node_value X iter)
               in if sz > 0 then as_release_set_size r sz s_kind else r)
            else r)
      else if xn_name iter = ''description'' then
        (if as_context_get_style ctx = AS_FORMAT_STYLE_COLLECTION then
           (let content = as_xml_dump_node_children X iter;
                lang = as_xmldata_get_node_locale X ctx iter
            in case lang of
                 Some l \<Rightarrow> as_release_set_description r content (Some l)
               | None \<Rightarrow> r)
         else fold as_release_parse_xml_metainfo_description_cb
                (as_xml_parse_metainfo_description_node X ctx iter) r)
      else r)"

text \<open>
  The attributes of the release element, in the order the loader reads them. The unix time
  of a date and the \<open>long\<close> of \<open>atol\<close> are stored into the unsigned 64-bit timestamp.
\<close>

definition load_xml_attributes :: "externals \<Rightarrow> xmlNode \<Rightarrow> AsRelease \<Rightarrow> AsRelease" where
  "load_xml_attributes X node r =
     (let r1 = (case xmlGetProp node ''type'' of
                  Some prop \<Rightarrow> r\<lparr>priv_kind := as_release_kind_from_string (Some prop)\<rparr>
                | None \<Rightarrow> r);
          r2 = as_release_set_version r1 (xmlGetProp node ''version'');
          r3 = (case xmlGetProp node ''date'' of
                  Some prop \<Rightarrow>
                    (case as_iso8601_to_datetime X (Some prop) of
                       Some time \<Rightarrow> r2\<lparr>priv_timestamp := word_of_int (g_date_time_to_unix time)\<rparr>
                     | None \<Rightarrow> r2)
                | None \<Rightarrow> r2);
          r4 = (case xmlGetProp node ''timestamp'' of
                  Some prop \<Rightarrow> r3\<lparr>priv_timestamp := word_of_int (atol prop)\<rparr>
                | None \<Rightarrow> r3);
          r5 = (case xmlGetProp node ''urgency'' of
                  Some prop \<Rightarrow> r4\<lparr>priv_urgency := as_urgency_kind_from_string X (Some prop)\<rparr>
                | None \<Rightarrow> r4)
      in r5)"

definition as_release_load_from_xml ::
  "externals \<Rightarrow> AsRelease \<Rightarrow> AsContext \<Rightarrow> xmlNode \<Rightarrow> bool \<times> AsRelease" where
  "as_release_load_from_xml X release ctx node =
     (let r0 = as_release_set_context release (Some ctx);
          r5 = load_xml_attributes X node r0;
          r6 = fold (load_xml_child X ctx) (xn_children node) r5
      in (True, r6))"

text \<open>The release element without the attributes of one name.\<close>

definition xml_without_prop :: "string \<Rightarrow> xmlNode \<Rightarrow> xmlNode" where
  "xml_without_prop name node =
     XmlNode (xn_type node) (xn_name node)
       (filter (\<lambda>kv. fst kv \<noteq> name) (xn_properties node)) (xn_children node) (xn_content node)"

section \<open>YAML codec\<close>

text \<open>
  One turn of the loop over the mapping's entries. \<open>atol\<close> reads through its argument, so
  a \<open>unix-timestamp\<close> entry without a value (\<open>as_yaml_node_get_value\<close> gives \<open>NULL\<close>)
  faults; the model gives \<open>None\<close> there. Every other callee accepts \<open>NULL\<close>.
\<close>

definition load_yaml_entry :: "externals \<Rightarrow> AsContext \<Rightarrow> GNode \<Rightarrow> AsRelease \<Rightarrow> AsRelease option" where
  "load_yaml_entry X ctx n r =
     (let key = as_yaml_node_get_key X n;
          val = as_yaml_node_get_value X n
      in if key = Some ''unix-timestamp'' then
           (case val of
              None \<Rightarrow> None
            | Some v \<Rightarrow> Some (r\<lparr>priv_timestamp := word_of_int (atol v)\<rparr>))
         else if key = Some ''date'' then
           (case as_iso8601_to_datetime X val of
              Some time \<Rightarrow> Some (r\<lparr>priv_timestamp := word_of_int (g_date_time_to_unix time)\<rparr>)
            | None \<Rightarrow> Some r)
         else if key = Some ''type'' then
           Some (r\<lparr>priv_kind := as_release_kind_from_string val\<rparr>)
         else if key = Some ''version'' then
           Some (as_release_set_version r val)
         else if key = Some ''urgency'' then
           Some (r\<lparr>priv_urgency := as_urgency_kind_from_string X val\<rparr>)
         else if key = Some ''description'' then
           Some (as_release_set_description r (as_yaml_get_localized_value X ctx n) None)
         else Some r)"

fun load_yaml_entries :: "externals \<Rightarrow> AsContext \<Rightarrow> GNode list \<Rightarrow> AsRelease \<Rightarrow> AsRelease option" where
  "load_yaml_entries X ctx [] r = Some r"
| "load_yaml_entries X ctx (n # ns) r =
     (case load_yaml_entry X ctx n r of
        None \<Rightarrow> None
      | Some r' \<Rightarrow> load_yaml_entries X ctx ns r')"

definition as_release_load_from_yaml ::
  "externals \<Rightarrow> AsRelease \<Rightarrow> AsContext \<Rightarrow> GNode \<Rightarrow> (bool \<times> AsRelease) option" where
  "as_release_load_from_yaml X release ctx node =
     (case load_yaml_entries X ctx (gn_children node) (as_release_set_context release (Some ctx)) of
        None \<Rightarrow> None
      | Some r \<Rightarrow> Some (True, r))"

section \<open>Binary cache codec\<close>

text \<open>
  The values the cache entry of a release is built from: unsigned numbers, a maybe-string,
  an array of strings, and the two dictionaries (checksum kind to value, size kind to
  size). An entry is the array of its \<open>{key, value}\<close> pairs in the order they were added.
\<close>

datatype GVariant =
    VUint32 guint32
  | VUint64 guint64
  | VMaybeString "string option"
  | VStringArray "string list"
  | VChecksumDict "(guint32 \<times> string) list"
  | VSizeDict "(guint32 \<times> guint64) list"

datatype GVariantType =
    G_VARIANT_TYPE_UINT32
  | G_VARIANT_TYPE_UINT64
  | G_VARIANT_TYPE_MAYBE
  | G_VARIANT_TYPE_STRING_ARRAY
  | G_VARIANT_TYPE_DICTIONARY

fun g_variant_is_of_type :: "GVariant \<Rightarrow> GVariantType \<Rightarrow> bool" where
  "g_variant_is_of_type (VUint32 _) ty = (ty = G_VARIANT_TYPE_UINT32)"
| "g_variant_is_of_type (VUint64 _) ty = (ty = G_VARIANT_TYPE_UINT64)"
| "g_variant_is_of_type (VMaybeString _) ty = (ty = G_VARIANT_TYPE_MAYBE)"
| "g_variant_is_of_type (VStringArray _) ty = (ty = G_VARIANT_TYPE_STRING_ARRAY)"
| "g_variant_is_of_type (VChecksumDict _) ty = (ty = G_VARIANT_TYPE_DICTIONARY)"
| "g_variant_is_of_type (VSizeDict _) ty = (ty = G_VARIANT_TYPE_DICTIONARY)"

type_synonym GVariantDict = "string \<rightharpoonup> GVariant"

text \<open>
  \<open>g_variant_dict_init\<close> inserts the pairs of the entry into a hash table one after the
  other, so of two pairs with one key the later one stays.
\<close>

definition g_variant_dict_init :: "(string \<times> GVariant) list \<Rightarrow> GVariantDict" where
  "g_variant_dict_init variant = map_of (rev variant)"

definition g_variant_dict_lookup_value :: "GVariantDict \<Rightarrow> string \<Rightarrow> GVariantType \<Rightarrow> GVariant option" where
  "g_variant_dict_lookup_value dict key expected_type =
     (case dict key of
        None \<Rightarrow> None
      | Some v \<Rightarrow> if g_variant_is_of_type v expected_type then Some v else None)"

text \<open>
  \<open>g_variant_get_uint64\<close> starts with \<open>g_return_val_if_fail\<close> on the type of its argument
  and so gives \<open>0\<close> for \<open>NULL\<close>.
\<close>

definition g_variant_get_uint64 :: "GVariant option \<Rightarrow> guint64" where
  "g_variant_get_uint64 v = (case v of Some (VUint64 w) \<Rightarrow> w | _ \<Rightarrow> 0)"

text \<open>
  Modelled from the spec: the helpers of \<open>as-variant-cache.h\<close> are not among the sources.
  By the spec, \<open>kind\<close> and \<open>urgency\<close> read as zero when their key is absent
  (\<open>as_variant_get_dict_uint32\<close>); \<open>version\<close> and \<open>description\<close> are maybe-strings that
  may be absent as a key, present and empty, or present with a text
  (\<open>as_variant_mstring_new\<close>, \<open>as_variant_get_dict_mstr\<close>, which reads the first two as
  \<open>NULL\<close>); the location list is written only when it is not empty
  (\<open>as_variant_from_string_ptrarray\<close>) and read back, when the key is there, by appending
  to the given array (\<open>as_variant_to_string_ptrarray_by_dict\<close>).
\<close>

definition as_variant_get_dict_uint32 :: "GVariantDict \<Rightarrow> string \<Rightarrow> guint32" where
  "as_variant_get_dict_uint32 dict key =
     (case g_variant_dict_lookup_value dict key G_VARIANT_TYPE_UINT32 of
        Some (VUint32 w) \<Rightarrow> w
      | _ \<Rightarrow> 0)"

definition as_variant_mstring_new :: "string option \<Rightarrow> GVariant" where
  "as_variant_mstring_new str = VMaybeString str"

definition as_variant_get_dict_mstr :: "GVariantDict \<Rightarrow> string \<Rightarrow> string option" where
  "as_variant_get_dict_mstr dict key =
     (case g_variant_dict_lookup_value dict key G_VARIANT_TYPE_MAYBE of
        Some (VMaybeString s) \<Rightarrow> s
      | _ \<Rightarrow> None)"

definition as_variant_from_string_ptrarray :: "string list \<Rightarrow> GVariant option" where
  "as_variant_from_string_ptrarray strarray =
     (if strarray = [] then None else Some (VStringArray strarray))"

definition as_variant_to_string_ptrarray_by_dict :: "GVariantDict \<Rightarrow> string \<Rightarrow> string list \<Rightarrow> string list" where
  "as_variant_to_string_ptrarray_by_dict dict key dest =
     (case g_variant_dict_lookup_value dict key G_VARIANT_TYPE_STRING_ARRAY of
        Some (VStringArray xs) \<Rightarrow> dest @ xs
      | _ \<Rightarrow> dest)"

text \<open>
  Modelled from the spec: the cache codec of \<open>AsChecksum\<close> is not among the sources. By the
  spec the checksums of a release are stored keyed by the numeric code of their kind, and
  a second checksum of one kind overwrites the first (\<open>as_checksum_to_variant\<close>); reading
  an entry gives a checksum of that kind and value (\<open>as_checksum_set_from_variant\<close>, whose
  \<open>FALSE\<close> is \<open>None\<close>).
\<close>

definition as_checksum_to_variant :: "AsChecksum \<Rightarrow> (guint32 \<times> string) list \<Rightarrow> (guint32 \<times> string) list" where
  "as_checksum_to_variant cs builder = AList.update (cs_kind cs) (cs_value cs) builder"

definition as_checksum_set_from_variant :: "guint32 \<times> string \<Rightarrow> AsChecksum option" where
  "as_checksum_set_from_variant entry = Some \<lparr>cs_kind = fst entry, cs_value = snd entry\<rparr>"

text \<open>
  \<open>as_release_to_variant\<close> appends one entry to the caller's builder; the model gives that
  entry. The size loop runs over every index below \<open>AS_SIZE_KIND_LAST\<close>, index \<open>0\<close>
  included.
\<close>

definition build_sizes :: "AsRelease \<Rightarrow> (guint32 \<times> guint64) list" where
  "build_sizes r =
     map (\<lambda>j. (of_nat j, as_release_get_size r (of_nat j)))
       (filter (\<lambda>j. as_release_get_size r (of_nat j) > 0) [0 ..< unat AS_SIZE_KIND_LAST])"

definition as_release_to_variant :: "AsRelease \<Rightarrow> (string \<times> GVariant) list" where
  "as_release_to_variant r =
     (let checksum_b = fold as_checksum_to_variant (priv_checksums r) [];
          sizes_b = build_sizes r;
          have_sizes = (sizes_b \<noteq> []);
          rel_b = [(''kind'', VUint32 (priv_kind r)),
                   (''version'', as_variant_mstring_new (priv_version r)),
                   (''timestamp'', VUint64 (priv_timestamp r)),
                   (''urgency'', VUint32 (priv_urgency r)),
                   (''description'', as_variant_mstring_new (as_release_get_description r))];
          locations_var = as_variant_from_string_ptrarray (priv_locations r);
          rel_b1 = (case locations_var of
                      Some v \<Rightarrow> rel_b @ [(''locations'', v)]
                    | None \<Rightarrow> rel_b);
          checksums_var = (if length (priv_checksums r) > 0 then Some (VChecksumDict checksum_b) else None);
          rel_b2 = (case checksums_var of
                      Some v \<Rightarrow> rel_b1 @ [(''checksums'', v)]
                    | None \<Rightarrow> rel_b1);
          sizes_var = (if have_sizes then Some (VSizeDict sizes_b) else None);
          rel_b3 = (case sizes_var of
                      Some v \<Rightarrow> rel_b2 @ [(''sizes'', v)]
                    | None \<Rightarrow> rel_b2)
      in rel_b3)"

text \<open>
  The two iterations of \<open>as_release_set_from_variant\<close> over the entries of a dictionary. The
  loader reads the entries of \<open>sizes\<close> as (kind, size) and those of \<open>checksums\<close> through the
  checksum codec; a dictionary of the other entry type is not what the writer produces
  and is left unread.
\<close>

definition load_variant_sizes :: "GVariant option \<Rightarrow> AsRelease \<Rightarrow> AsRelease" where
  "load_variant_sizes tmp r =
     (case tmp of
        Some (VSizeDict entries) \<Rightarrow> fold (\<lambda>(kind, sz) r'. as_release_set_size r' sz kind) entries r
      | _ \<Rightarrow> r)"

definition load_variant_checksums :: "GVariant option \<Rightarrow> AsRelease \<Rightarrow> AsRelease" where
  "load_variant_checksums tmp r =
     (case tmp of
        Some (VChecksumDict entries) \<Rightarrow>
          fold (\<lambda>inner_child r'.
                  case as_checksum_set_from_variant inner_child of
                    Some cs \<Rightarrow> as_release_add_checksum r' cs
                  | None \<Rightarrow> r') entries r
      | _ \<Rightarrow> r)"

definition as_release_set_from_variant ::
  "AsRelease \<Rightarrow> (string \<times> GVariant) list \<Rightarrow> string option \<Rightarrow> bool \<times> AsRelease" where
  "as_release_set_from_variant release variant locale =
     (let r0 = as_release_set_active_locale release locale;
          rdict = g_variant_dict_init variant;
          r1 = r0\<lparr>priv_kind := as_variant_get_dict_uint32 rdict ''kind''\<rparr>;
          r2 = as_release_set_version r1 (as_variant_get_dict_mstr rdict ''version'');
          r3 = r2\<lparr>priv_timestamp :=
                   g_variant_get_uint64 (g_variant_dict_lookup_value rdict ''timestamp'' G_VARIANT_TYPE_UINT64)\<rparr>;
          r4 = r3\<lparr>priv_urgency := as_variant_get_dict_uint32 rdict ''urgency''\<rparr>;
          r5 = as_release_set_description r4 (as_variant_get_dict_mstr rdict ''description'') locale;
          r6 = r5\<lparr>priv_locations :=
                   as_variant_to_string_ptrarray_by_dict rdict ''locations'' (priv_locations r5)\<rparr>;
          r7 = load_variant_sizes (g_variant_dict_lookup_value rdict ''sizes'' G_VARIANT_TYPE_DICTIONARY) r6;
          r8 = load_variant_checksums (g_variant_dict_lookup_value rdict ''checksums'' G_VARIANT_TYPE_DICTIONARY) r7
      in (True, r8))"

text \<open>The entry of a release without the pairs of one key.\<close>

definition without_key :: "string \<Rightarrow> (string \<times> GVariant) list \<Rightarrow> (string \<times> GVariant) list" where
  "without_key key variant = filter (\<lambda>kv. fst kv \<noteq> key) variant"

text \<open>
  What the two iterations of the cache loader leave in the size array and in the checksum list,
  written as functions of the array and the list alone; the lemmas below show that the
  iterations compute them and touch nothing else.
\<close>

definition store_sizes :: "(guint32 \<times> guint64) list \<Rightarrow> guint64 list \<Rightarrow> guint64 list" where
  "store_sizes entries xs =
     fold (\<lambda>(kind, sz) ys. if kind < AS_SIZE_KIND_LAST \<and> kind \<noteq> 0 then ys[unat kind := sz] else ys)
       entries xs"

definition sizes_from_variant :: "GVariant option \<Rightarrow> guint64 list \<Rightarrow> guint64 list" where
  "sizes_from_variant tmp xs = (case tmp of Some (VSizeDict entries) \<Rightarrow> store_sizes entries xs | _ \<Rightarrow> xs)"

definition checksums_from_variant :: "GVariant option \<Rightarrow> AsChecksum list \<Rightarrow> AsChecksum list" where
  "checksums_from_variant tmp cs =
     (case tmp of
        Some (VChecksumDict entries) \<Rightarrow> cs @ map (\<lambda>e. \<lparr>cs_kind = fst e, cs_value = snd e\<rparr>) entries
      | _ \<Rightarrow> cs)"

section \<open>Invariant and sample data\<close>

text \<open>
  What holds of every release that is built by \<open>as_release_new\<close> and changed through the
  functions of this file: the size array has its length, and slot \<open>0\<close> (the unknown kind,
  which \<open>as_release_set_size\<close> refuses) is still zero.
\<close>

definition release_invariant :: "AsRelease \<Rightarrow> bool" where
  "release_invariant r \<longleftrightarrow> size_array_ok r \<and> priv_size r ! 0 = 0"

text \<open>
  One choice of collaborators, for the worked examples below: a date parser that knows one
  date, an urgency table with one entry, a checksum loader that needs a \<open>type\<close> attribute,
  a node value that is the text of the text children, and a number parser that is
  \<open>atol\<close> on non-negative input.
\<close>

definition sample_externals :: externals where
  "sample_externals =
     \<lparr> as_iso8601_to_datetime = (\<lambda>s. if s = Some ''2020-01-01'' then Some 1577836800 else None),
       as_urgency_kind_from_string = (\<lambda>s. if s = Some ''low'' then 1 else 0),
       as_xml_get_node_value =
         (\<lambda>n. concat (map xn_content (filter (\<lambda>c. xn_type c = XML_TEXT_NODE) (xn_children n)))),
       g_ascii_strtoull = (\<lambda>s. word_of_int (max 0 (atol s))),
       as_checksum_load_from_xml =
         (\<lambda>ctx n. case xmlGetProp n ''type'' of
                     None \<Rightarrow> None
                   | Some t \<Rightarrow> Some \<lparr>cs_kind = (if t = ''sha1'' then 1 else 2), cs_value = xn_content n\<rparr>),
       as_xml_dump_node_children = (\<lambda>n. Some (xn_content n)),
       as_xmldata_get_node_locale = (\<lambda>ctx n. xmlGetProp n ''lang''),
       as_xml_parse_metainfo_description_node = (\<lambda>ctx n. [(''C'', xn_content n)]),
       as_yaml_node_get_key = gn_data,
       as_yaml_node_get_value = (\<lambda>n. case gn_children n of [] \<Rightarrow> None | c # _ \<Rightarrow> gn_data c),
       as_yaml_get_localized_value = (\<lambda>ctx n. case gn_children n of [] \<Rightarrow> None | c # _ \<Rightarrow> gn_data c) \<rparr>"

definition sample_context :: AsContext where
  "sample_context = \<lparr> ctx_locale = Some ''de'', ctx_filename = None, ctx_style = AS_FORMAT_STYLE_COLLECTION \<rparr>"

text \<open>
  Sample documents: a release element whose date does not parse, a location child, a size
  child of an unknown type, a size child without a type, a checksum child the sample
  loader rejects, and the entries of a YAML mapping, one of them a date that does not
  parse.
\<close>

definition sample_release_bad_date :: xmlNode where
  "sample_release_bad_date =
     XmlNode XML_ELEMENT_NODE ''release'' [(''version'', ''1.0''), (''date'', ''yesterday'')] [] ''''"

definition sample_location :: xmlNode where
  "sample_location =
     XmlNode XML_ELEMENT_NODE ''location'' [] [XmlNode XML_TEXT_NODE ''text'' [] [] ''https://example.org/a''] ''''"

definition sample_size_unknown_type :: xmlNode where
  "sample_size_unknown_type =
     XmlNode XML_ELEMENT_NODE ''size'' [(''type'', ''huge'')] [XmlNode XML_TEXT_NODE ''text'' [] [] ''2048''] ''''"

definition sample_size_no_type :: xmlNode where
  "sample_size_no_type =
     XmlNode XML_ELEMENT_NODE ''size'' [] [XmlNode XML_TEXT_NODE ''text'' [] [] ''2048''] ''''"

definition sample_checksum_rejected :: xmlNode where
  "sample_checksum_rejected = XmlNode XML_ELEMENT_NODE ''checksum'' [] [] ''abc''"

definition sample_yaml_version :: GNode where
  "sample_yaml_version = GNode (Some ''version'') [GNode (Some ''1.0'') []]"

definition sample_yaml_bad_date :: GNode where
  "sample_yaml_bad_date = GNode (Some ''date'') [GNode (Some ''soon'') []]"

definition sample_yaml_timestamp :: GNode where
  "sample_yaml_timestamp = GNode (Some ''unix-timestamp'') [GNode (Some ''500'') []]"

text \<open>An entry of a YAML mapping that has a key and no value.\<close>

definition sample_yaml_no_value :: "string \<Rightarrow> GNode" where
  "sample_yaml_no_value key = GNode (Some key) []"

text \<open>
  A sample release: development kind, a version, a timestamp, a download size, one
  location, two checksums of one kind, and descriptions for three locales with \<open>"de"\<close>
  as the active one.
\<close>

definition sample_release :: AsRelease where
  "sample_release =
     as_release_init
       \<lparr> priv_kind := AS_RELEASE_KIND_DEVELOPMENT,
         priv_version := Some ''1.2'',
         priv_description := [''C'' \<mapsto> Some ''Plain'', ''fr'' \<mapsto> Some ''Texte'', ''de'' \<mapsto> Some ''Text''],
         priv_timestamp := 1000,
         priv_active_locale_override := Some ''de'',
         priv_locations := [''https://example.org/a''],
         priv_checksums := [\<lparr>cs_kind = 1, cs_value = ''ab''\<rparr>, \<lparr>cs_kind = 1, cs_value = ''cd''\<rparr>],
         priv_size := [0, 2048, 0] \<rparr>"

section \<open>Properties of the accessors\<close>

lemmas enum_defs =
  AS_RELEASE_KIND_UNKNOWN_def AS_RELEASE_KIND_STABLE_def AS_RELEASE_KIND_DEVELOPMENT_def
  AS_SIZE_KIND_UNKNOWN_def AS_SIZE_KIND_DOWNLOAD_def AS_SIZE_KIND_INSTALLED_def
  AS_SIZE_KIND_LAST_def AS_URGENCY_KIND_UNKNOWN_def

text \<open>
  C3. \<open>as_release_get_description\<close> returns the text stored under the active locale when
  there is one; otherwise the text stored under \<open>"C"\<close> when there is one; otherwise
  \<open>NULL\<close>. A text is there when \<open>g_hash_table_lookup\<close> finds it: a locale that was given
  a \<open>NULL\<close> text has none, like a locale that was never written.
\<close>

theorem get_description_fallback:
  "(g_hash_table_lookup (priv_description r) (as_release_get_active_locale r) = Some t
      \<longrightarrow> as_release_get_description r = Some t)
   \<and> (g_hash_table_lookup (priv_description r) (as_release_get_active_locale r) = None
      \<and> g_hash_table_lookup (priv_description r) ''C'' = Some t
      \<longrightarrow> as_release_get_description r = Some t)
   \<and> (g_hash_table_lookup (priv_description r) (as_release_get_active_locale r) = None
      \<and> g_hash_table_lookup (priv_description r) ''C'' = None
      \<longrightarrow> as_release_get_description r = None)"
  by (simp add: as_release_get_description_def)

theorem get_description_fallback_witness:
  "as_release_get_description
     (as_release_init\<lparr>priv_description := [''C'' \<mapsto> Some ''Plain'', ''de'' \<mapsto> Some ''Text''],
                      priv_active_locale_override := Some ''de''\<rparr>) = Some ''Text''
   \<and> as_release_get_description
     (as_release_init\<lparr>priv_description := [''C'' \<mapsto> Some ''Plain'', ''de'' \<mapsto> Some ''Text''],
                      priv_active_locale_override := Some ''fr''\<rparr>) = Some ''Plain''
   \<and> as_release_get_description
     (as_release_init\<lparr>priv_description := [''de'' \<mapsto> Some ''Text''],
                      priv_active_locale_override := Some ''fr''\<rparr>) = None"
  using get_description_fallback
    [of "as_release_init\<lparr>priv_description := [''C'' \<mapsto> Some ''Plain'', ''de'' \<mapsto> Some ''Text''],
                      priv_active_locale_override := Some ''de''\<rparr>" "''Text''"]
   get_description_fallback
    [of "as_release_init\<lparr>priv_description := [''C'' \<mapsto> Some ''Plain'', ''de'' \<mapsto> Some ''Text''],
                      priv_active_locale_override := Some ''fr''\<rparr>" "''Plain''"]
   get_description_fallback
    [of "as_release_init\<lparr>priv_description := [''de'' \<mapsto> Some ''Text''],
                      priv_active_locale_override := Some ''fr''\<rparr>" "''x''"]
  by (simp add: as_release_init_def as_release_get_active_locale_def g_hash_table_lookup_def)

text \<open>
  C4. On a release whose size array has its declared length, storing a size under Download
  or Installed and reading that kind back gives the stored value (for every value, so for
  every value above zero); for kind Unknown, and for every kind that is not below
  \<open>AS_SIZE_KIND_LAST\<close>, \<open>as_release_set_size\<close> returns the release as it was, size array
  and all other fields.
\<close>

theorem set_size_get_size:
  "(size_array_ok r \<and> (kind = AS_SIZE_KIND_DOWNLOAD \<or> kind = AS_SIZE_KIND_INSTALLED)
      \<longrightarrow> as_release_get_size (as_release_set_size r v kind) kind = v)
   \<and> (kind = AS_SIZE_KIND_UNKNOWN \<or> \<not> kind < AS_SIZE_KIND_LAST
      \<longrightarrow> as_release_set_size r v kind = r)"
  by (auto simp: as_release_get_size_def as_release_set_size_def size_array_ok_def enum_defs)

theorem set_size_get_size_witness:
  "size_array_ok as_release_init
   \<and> as_release_get_size (as_release_set_size as_release_init 2048 AS_SIZE_KIND_DOWNLOAD) AS_SIZE_KIND_DOWNLOAD = 2048
   \<and> as_release_get_size (as_release_set_size as_release_init 7 AS_SIZE_KIND_INSTALLED) AS_SIZE_KIND_INSTALLED = 7
   \<and> as_release_set_size as_release_init 2048 AS_SIZE_KIND_UNKNOWN = as_release_init
   \<and> \<not> (5 :: AsSizeKind) < AS_SIZE_KIND_LAST
   \<and> as_release_set_size as_release_init 2048 5 = as_release_init"
  using set_size_get_size [of as_release_init AS_SIZE_KIND_DOWNLOAD 2048]
    set_size_get_size [of as_release_init AS_SIZE_KIND_INSTALLED 7]
    set_size_get_size [of as_release_init AS_SIZE_KIND_UNKNOWN 2048]
    set_size_get_size [of as_release_init 5 2048]
  by (simp add: size_array_ok_def as_release_init_def enum_defs)

text \<open>
  C5. The active locale is the per-instance override when one is set; otherwise the locale
  of the attached context when a context is attached and its locale is set; otherwise the
  literal \<open>"C"\<close>.
\<close>

theorem active_locale_priority:
  "as_release_get_active_locale r =
     (case priv_active_locale_override r of
        Some l \<Rightarrow> l
      | None \<Rightarrow>
          (case priv_context r of
             Some ctx \<Rightarrow> (case as_context_get_locale ctx of Some l \<Rightarrow> l | None \<Rightarrow> ''C'')
           | None \<Rightarrow> ''C''))"
  by (simp add: as_release_get_active_locale_def split: option.splits)

text \<open>
  C6. \<open>as_release_set_context\<close> stores the given context reference, clears the per-instance
  locale override whatever it was, and leaves the kind, the version, the descriptions, the
  timestamp, the urgency, the locations, the checksums and the sizes as they were.
\<close>

theorem set_context_frame:
  "priv_context (as_release_set_context r ctx) = ctx
   \<and> priv_active_locale_override (as_release_set_context r ctx) = None
   \<and> priv_kind (as_release_set_context r ctx) = priv_kind r
   \<and> priv_version (as_release_set_context r ctx) = priv_version r
   \<and> priv_description (as_release_set_context r ctx) = priv_description r
   \<and> priv_timestamp (as_release_set_context r ctx) = priv_timestamp r
   \<and> priv_urgency (as_release_set_context r ctx) = priv_urgency r
   \<and> priv_locations (as_release_set_context r ctx) = priv_locations r
   \<and> priv_checksums (as_release_set_context r ctx) = priv_checksums r
   \<and> priv_size (as_release_set_context r ctx) = priv_size r"
  by (simp add: as_release_set_context_def)

section \<open>Properties of the XML codec\<close>

text \<open>The children of the release element change neither kind, version, timestamp nor urgency.\<close>

lemma fold_description_cb_fields:
  "priv_kind (fold as_release_parse_xml_metainfo_description_cb kvs r) = priv_kind r
   \<and> priv_version (fold as_release_parse_xml_metainfo_description_cb kvs r) = priv_version r
   \<and> priv_timestamp (fold as_release_parse_xml_metainfo_description_cb kvs r) = priv_timestamp r
   \<and> priv_urgency (fold as_release_parse_xml_metainfo_description_cb kvs r) = priv_urgency r"
  by (induction kvs arbitrary: r)
     (simp_all add: as_release_parse_xml_metainfo_description_cb_def as_release_set_description_def)

lemma load_xml_child_fields:
  "priv_kind (load_xml_child X ctx iter r) = priv_kind r
   \<and> priv_version (load_xml_child X ctx iter r) = priv_version r
   \<and> priv_timestamp (load_xml_child X ctx iter r) = priv_timestamp r
   \<and> priv_urgency (load_xml_child X ctx iter r) = priv_urgency r"
  by (simp add: load_xml_child_def as_release_add_location_def as_release_add_checksum_def
      as_release_set_size_def as_release_set_description_def fold_description_cb_fields Let_def
      split: option.splits)

lemma fold_load_xml_child_fields:
  "priv_kind (fold (load_xml_child X ctx) cs r) = priv_kind r
   \<and> priv_version (fold (load_xml_child X ctx) cs r) = priv_version r
   \<and> priv_timestamp (fold (load_xml_child X ctx) cs r) = priv_timestamp r
   \<and> priv_urgency (fold (load_xml_child X ctx) cs r) = priv_urgency r"
  by (induction cs arbitrary: r) (simp_all add: load_xml_child_fields)

text \<open>
  C1. When the release element has a \<open>timestamp\<close> attribute, the loaded timestamp is the
  number \<open>atol\<close> reads from it, stored as unsigned 64-bit, whatever a \<open>date\<close> attribute
  gave before; with \<open>date="2020-01-01"\<close> and \<open>timestamp="500"\<close> the loaded timestamp is
  500, for every date parser.
\<close>

theorem xml_timestamp_attribute_wins:
  "(xmlGetProp node ''timestamp'' = Some ts
      \<longrightarrow> priv_timestamp (snd (as_release_load_from_xml X release ctx node)) = word_of_int (atol ts))
   \<and> (xmlGetProp node ''date'' = Some ''2020-01-01'' \<and> xmlGetProp node ''timestamp'' = Some ''500''
      \<longrightarrow> priv_timestamp (snd (as_release_load_from_xml X release ctx node)) = 500)"
proof -
  have a500: "atol ''500'' = 500"
    by (simp add: atol_def isspace_def isdigit_def digit_value_def LONG_MAX_def LONG_MIN_def)
  have "priv_timestamp (snd (as_release_load_from_xml X release ctx node)) = word_of_int (atol ts)"
    if "xmlGetProp node ''timestamp'' = Some ts" for ts
    using that
    by (simp add: as_release_load_from_xml_def load_xml_attributes_def fold_load_xml_child_fields
        Let_def split: option.splits)
  then show ?thesis using a500 by auto
qed

theorem xml_timestamp_attribute_wins_witness:
  "xmlGetProp (XmlNode XML_ELEMENT_NODE ''release''
       [(''date'', ''2020-01-01''), (''timestamp'', ''500'')] [] '''') ''date'' = Some ''2020-01-01''
   \<and> xmlGetProp (XmlNode XML_ELEMENT_NODE ''release''
       [(''date'', ''2020-01-01''), (''timestamp'', ''500'')] [] '''') ''timestamp'' = Some ''500''
   \<and> priv_timestamp (snd (as_release_load_from_xml sample_externals as_release_init sample_context
       (XmlNode XML_ELEMENT_NODE ''release''
          [(''date'', ''2020-01-01''), (''timestamp'', ''500'')] [] ''''))) = 500"
  using xml_timestamp_attribute_wins
    [of "XmlNode XML_ELEMENT_NODE ''release'' [(''date'', ''2020-01-01''), (''timestamp'', ''500'')] [] ''''"
        "''500''" sample_externals as_release_init sample_context]
  by (simp add: xmlGetProp_def atol_def isspace_def isdigit_def digit_value_def LONG_MAX_def
      LONG_MIN_def)

text \<open>
  C10. The XML loader always overwrites the version with the \<open>version\<close> attribute, so a
  missing attribute leaves the version unset whatever it was before; a missing \<open>type\<close>
  leaves the kind, missing \<open>date\<close> and \<open>timestamp\<close> leave the timestamp, and a missing
  \<open>urgency\<close> leaves the urgency as they were.
\<close>

theorem xml_version_unconditional:
  "priv_version (snd (as_release_load_from_xml X release ctx node)) = xmlGetProp node ''version''
   \<and> (xmlGetProp node ''version'' = None
      \<longrightarrow> priv_version (snd (as_release_load_from_xml X release ctx node)) = None)
   \<and> (xmlGetProp node ''type'' = None
      \<longrightarrow> priv_kind (snd (as_release_load_from_xml X release ctx node)) = priv_kind release)
   \<and> (xmlGetProp node ''date'' = None \<and> xmlGetProp node ''timestamp'' = None
      \<longrightarrow> priv_timestamp (snd (as_release_load_from_xml X release ctx node)) = priv_timestamp release)
   \<and> (xmlGetProp node ''urgency'' = None
      \<longrightarrow> priv_urgency (snd (as_release_load_from_xml X release ctx node)) = priv_urgency release)"
  by (simp add: as_release_load_from_xml_def load_xml_attributes_def fold_load_xml_child_fields
      as_release_set_version_def as_release_set_context_def Let_def split: option.splits)

theorem xml_version_unconditional_witness:
  "xmlGetProp (XmlNode XML_ELEMENT_NODE ''release'' [] [] '''') ''version'' = None
   \<and> priv_version (as_release_init\<lparr>priv_version := Some ''1.2'', priv_timestamp := 1000,
        priv_kind := AS_RELEASE_KIND_DEVELOPMENT, priv_urgency := 3\<rparr>) = Some ''1.2''
   \<and> priv_version (snd (as_release_load_from_xml sample_externals
        (as_release_init\<lparr>priv_version := Some ''1.2'', priv_timestamp := 1000,
           priv_kind := AS_RELEASE_KIND_DEVELOPMENT, priv_urgency := 3\<rparr>) sample_context
        (XmlNode XML_ELEMENT_NODE ''release'' [] [] ''''))) = None
   \<and> priv_kind (snd (as_release_load_from_xml sample_externals
        (as_release_init\<lparr>priv_version := Some ''1.2'', priv_timestamp := 1000,
           priv_kind := AS_RELEASE_KIND_DEVELOPMENT, priv_urgency := 3\<rparr>) sample_context
        (XmlNode XML_ELEMENT_NODE ''release'' [] [] ''''))) = AS_RELEASE_KIND_DEVELOPMENT
   \<and> priv_timestamp (snd (as_release_load_from_xml sample_externals
        (as_release_init\<lparr>priv_version := Some ''1.2'', priv_timestamp := 1000,
           priv_kind := AS_RELEASE_KIND_DEVELOPMENT, priv_urgency := 3\<rparr>) sample_context
        (XmlNode XML_ELEMENT_NODE ''release'' [] [] ''''))) = 1000
   \<and> priv_urgency (snd (as_release_load_from_xml sample_externals
        (as_release_init\<lparr>priv_version := Some ''1.2'', priv_timestamp := 1000,
           priv_kind := AS_RELEASE_KIND_DEVELOPMENT, priv_urgency := 3\<rparr>) sample_context
        (XmlNode XML_ELEMENT_NODE ''release'' [] [] ''''))) = 3"
  using xml_version_unconditional
    [of sample_externals "as_release_init\<lparr>priv_version := Some ''1.2'', priv_timestamp := 1000,
           priv_kind := AS_RELEASE_KIND_DEVELOPMENT, priv_urgency := 3\<rparr>" sample_context
        "XmlNode XML_ELEMENT_NODE ''release'' [] [] ''''"]
  by (simp add: xmlGetProp_def)

lemma xmlGetProp_without_prop:
  "xmlGetProp (xml_without_prop name node) k = (if k = name then None else xmlGetProp node k)"
proof -
  have "map_of (filter (\<lambda>kv. fst kv \<noteq> name) ps) k = (if k = name then None else map_of ps k)"
    for ps :: "(string \<times> string) list"
    by (induction ps) auto
  then show ?thesis
    by (simp add: xmlGetProp_def xml_without_prop_def)
qed

lemma load_xml_malformed_date:
  assumes "xmlGetProp node ''date'' = Some d" and "as_iso8601_to_datetime X (Some d) = None"
  shows "as_release_load_from_xml X r ctx node
         = as_release_load_from_xml X r ctx (xml_without_prop ''date'' node)"
proof -
  have "load_xml_attributes X node r0 = load_xml_attributes X (xml_without_prop ''date'' node) r0"
    for r0
    using assms by (simp add: load_xml_attributes_def xmlGetProp_without_prop)
  moreover have "xn_children (xml_without_prop ''date'' node) = xn_children node"
    by (simp add: xml_without_prop_def)
  ultimately show ?thesis
    by (simp add: as_release_load_from_xml_def)
qed

lemma load_xml_child_bad_size:
  assumes "xn_type c = XML_ELEMENT_NODE" and "xn_name c = ''size''"
    and "as_size_kind_from_string (xmlGetProp c ''type'') = AS_SIZE_KIND_UNKNOWN"
  shows "load_xml_child X ctx c r = r"
  using assms by (simp add: load_xml_child_def)

lemma load_xml_child_bad_checksum:
  assumes "xn_type c = XML_ELEMENT_NODE" and "xn_name c = ''checksum''"
    and "as_checksum_load_from_xml X ctx c = None"
  shows "load_xml_child X ctx c r = r"
  using assms by (simp add: load_xml_child_def)

lemma load_xml_skip_child:
  assumes "\<And>r'. load_xml_child X ctx c r' = r'"
  shows "as_release_load_from_xml X r ctx (XmlNode ty nm ps (csa @ c # csb) tx)
         = as_release_load_from_xml X r ctx (XmlNode ty nm ps (csa @ csb) tx)"
  using assms
  by (simp add: as_release_load_from_xml_def load_xml_attributes_def xmlGetProp_def)

section \<open>Properties of the YAML codec\<close>

lemma load_yaml_entries_append:
  "load_yaml_entries X ctx (xs @ ys) r =
     (case load_yaml_entries X ctx xs r of
        None \<Rightarrow> None
      | Some r' \<Rightarrow> load_yaml_entries X ctx ys r')"
  by (induction xs arbitrary: r) (simp_all split: option.splits)

lemma load_yaml_entry_total:
  assumes "as_yaml_node_get_key X n = Some ''unix-timestamp'' \<longrightarrow> as_yaml_node_get_value X n \<noteq> None"
  shows "\<exists>r'. load_yaml_entry X ctx n r = Some r'"
  using assms by (auto simp: load_yaml_entry_def Let_def split: option.splits)

lemma load_yaml_entries_total:
  assumes "\<forall>n \<in> set ns. as_yaml_node_get_key X n = Some ''unix-timestamp''
             \<longrightarrow> as_yaml_node_get_value X n \<noteq> None"
  shows "\<exists>r'. load_yaml_entries X ctx ns r = Some r'"
  using assms
proof (induction ns arbitrary: r)
  case Nil
  then show ?case by simp
next
  case (Cons n ns)
  then obtain r1 where "load_yaml_entry X ctx n r = Some r1"
    using load_yaml_entry_total [of X n ctx r] by auto
  with Cons show ?case by simp
qed

lemma load_yaml_entry_malformed_date:
  assumes "as_yaml_node_get_key X n = Some ''date''"
    and "as_iso8601_to_datetime X (as_yaml_node_get_value X n) = None"
  shows "load_yaml_entry X ctx n r = Some r"
  using assms by (simp add: load_yaml_entry_def)

lemma load_yaml_skip_entry:
  assumes "\<And>r'. load_yaml_entry X ctx n r' = Some r'"
  shows "as_release_load_from_yaml X r ctx (GNode d (nsa @ n # nsb))
         = as_release_load_from_yaml X r ctx (GNode d (nsa @ nsb))"
  using assms
  by (simp add: as_release_load_from_yaml_def load_yaml_entries_append split: option.splits)

section \<open>Field-level failures\<close>

text \<open>
  The failures that are skipped. The XML loader always returns \<open>TRUE\<close>, and the YAML
  loader returns \<open>TRUE\<close> on every mapping whose \<open>unix-timestamp\<close> entries carry a
  value. A \<open>date\<close> attribute that does not parse loads like the same element without
  that attribute, and leaves the timestamp as it was when there is no \<open>timestamp\<close>
  attribute either. A \<open>size\<close> child whose \<open>type\<close> is unknown or missing, and a
  \<open>checksum\<close> child whose sub-load fails, load like the same element without that child.
  A YAML \<open>date\<close> entry that does not parse loads like the same mapping without that
  entry.
\<close>

lemma field_failures_skipped:
  "fst (as_release_load_from_xml X r ctx node) = True
   \<and> ((\<forall>n \<in> set (gn_children ynode).
          as_yaml_node_get_key X n = Some ''unix-timestamp'' \<longrightarrow> as_yaml_node_get_value X n \<noteq> None)
      \<longrightarrow> (\<exists>r'. as_release_load_from_yaml X r ctx ynode = Some (True, r')))
   \<and> (xmlGetProp node ''date'' = Some d \<and> as_iso8601_to_datetime X (Some d) = None
      \<longrightarrow> as_release_load_from_xml X r ctx node
          = as_release_load_from_xml X r ctx (xml_without_prop ''date'' node)
        \<and> (xmlGetProp node ''timestamp'' = None
           \<longrightarrow> priv_timestamp (snd (as_release_load_from_xml X r ctx node)) = priv_timestamp r))
   \<and> (xn_type c = XML_ELEMENT_NODE \<and> xn_name c = ''size''
        \<and> as_size_kind_from_string (xmlGetProp c ''type'') = AS_SIZE_KIND_UNKNOWN
      \<longrightarrow> as_release_load_from_xml X r ctx (XmlNode ty nm ps (csa @ c # csb) tx)
          = as_release_load_from_xml X r ctx (XmlNode ty nm ps (csa @ csb) tx))
   \<and> (xn_type c = XML_ELEMENT_NODE \<and> xn_name c = ''checksum''
        \<and> as_checksum_load_from_xml X ctx c = None
      \<longrightarrow> as_release_load_from_xml X r ctx (XmlNode ty nm ps (csa @ c # csb) tx)
          = as_release_load_from_xml X r ctx (XmlNode ty nm ps (csa @ csb) tx))
   \<and> (as_yaml_node_get_key X n = Some ''date''
        \<and> as_iso8601_to_datetime X (as_yaml_node_get_value X n) = None
      \<longrightarrow> as_release_load_from_yaml X r ctx (GNode yd (nsa @ n # nsb))
          = as_release_load_from_yaml X r ctx (GNode yd (nsa @ nsb)))"
proof (intro conjI impI)
  show "fst (as_release_load_from_xml X r ctx node) = True"
    by (simp add: as_release_load_from_xml_def)
next
  assume "\<forall>n \<in> set (gn_children ynode).
            as_yaml_node_get_key X n = Some ''unix-timestamp'' \<longrightarrow> as_yaml_node_get_value X n \<noteq> None"
  then obtain r' where
    "load_yaml_entries X ctx (gn_children ynode) (as_release_set_context r (Some ctx)) = Some r'"
    using load_yaml_entries_total by blast
  then show "\<exists>r'. as_release_load_from_yaml X r ctx ynode = Some (True, r')"
    by (simp add: as_release_load_from_yaml_def)
next
  assume "xmlGetProp node ''date'' = Some d \<and> as_iso8601_to_datetime X (Some d) = None"
  then show "as_release_load_from_xml X r ctx node
             = as_release_load_from_xml X r ctx (xml_without_prop ''date'' node)"
    using load_xml_malformed_date by blast
next
  assume "xmlGetProp node ''date'' = Some d \<and> as_iso8601_to_datetime X (Some d) = None"
    and "xmlGetProp node ''timestamp'' = None"
  then show "priv_timestamp (snd (as_release_load_from_xml X r ctx node)) = priv_timestamp r"
    by (simp add: as_release_load_from_xml_def load_xml_attributes_def fold_load_xml_child_fields
        as_release_set_version_def as_release_set_context_def Let_def split: option.splits)
next
  assume "xn_type c = XML_ELEMENT_NODE \<and> xn_name c = ''size''
          \<and> as_size_kind_from_string (xmlGetProp c ''type'') = AS_SIZE_KIND_UNKNOWN"
  then have "\<And>r'. load_xml_child X ctx c r' = r'"
    using load_xml_child_bad_size by blast
  then show "as_release_load_from_xml X r ctx (XmlNode ty nm ps (csa @ c # csb) tx)
             = as_release_load_from_xml X r ctx (XmlNode ty nm ps (csa @ csb) tx)"
    by (rule load_xml_skip_child)
next
  assume "xn_type c = XML_ELEMENT_NODE \<and> xn_name c = ''checksum''
          \<and> as_checksum_load_from_xml X ctx c = None"
  then have "\<And>r'. load_xml_child X ctx c r' = r'"
    using load_xml_child_bad_checksum by blast
  then show "as_release_load_from_xml X r ctx (XmlNode ty nm ps (csa @ c # csb) tx)
             = as_release_load_from_xml X r ctx (XmlNode ty nm ps (csa @ csb) tx)"
    by (rule load_xml_skip_child)
next
  assume "as_yaml_node_get_key X n = Some ''date''
          \<and> as_iso8601_to_datetime X (as_yaml_node_get_value X n) = None"
  then have "\<And>r'. load_yaml_entry X ctx n r' = Some r'"
    using load_yaml_entry_malformed_date by blast
  then show "as_release_load_from_yaml X r ctx (GNode yd (nsa @ n # nsb))
             = as_release_load_from_yaml X r ctx (GNode yd (nsa @ nsb))"
    by (rule load_yaml_skip_entry)
qed

lemma field_failures_skipped_example:
  "fst (as_release_load_from_xml sample_externals (as_release_init\<lparr>priv_timestamp := 42\<rparr>)
          sample_context sample_release_bad_date) = True
   \<and> (\<exists>r'. as_release_load_from_yaml sample_externals (as_release_init\<lparr>priv_timestamp := 42\<rparr>)
          sample_context (GNode None [sample_yaml_version, sample_yaml_bad_date, sample_yaml_timestamp])
        = Some (True, r'))
   \<and> xmlGetProp sample_release_bad_date ''date'' = Some ''yesterday''
   \<and> as_iso8601_to_datetime sample_externals (Some ''yesterday'') = None
   \<and> xmlGetProp sample_release_bad_date ''timestamp'' = None
   \<and> as_release_load_from_xml sample_externals (as_release_init\<lparr>priv_timestamp := 42\<rparr>)
        sample_context sample_release_bad_date
      = as_release_load_from_xml sample_externals (as_release_init\<lparr>priv_timestamp := 42\<rparr>)
          sample_context (xml_without_prop ''date'' sample_release_bad_date)
   \<and> priv_timestamp (snd (as_release_load_from_xml sample_externals
        (as_release_init\<lparr>priv_timestamp := 42\<rparr>) sample_context sample_release_bad_date)) = 42
   \<and> as_size_kind_from_string (xmlGetProp sample_size_unknown_type ''type'') = AS_SIZE_KIND_UNKNOWN
   \<and> as_release_load_from_xml sample_externals (as_release_init\<lparr>priv_timestamp := 42\<rparr>) sample_context
        (XmlNode XML_ELEMENT_NODE ''release'' [] ([sample_location] @ sample_size_unknown_type # [sample_location]) '''')
      = as_release_load_from_xml sample_externals (as_release_init\<lparr>priv_timestamp := 42\<rparr>) sample_context
        (XmlNode XML_ELEMENT_NODE ''release'' [] ([sample_location] @ [sample_location]) '''')
   \<and> as_size_kind_from_string (xmlGetProp sample_size_no_type ''type'') = AS_SIZE_KIND_UNKNOWN
   \<and> as_release_load_from_xml sample_externals (as_release_init\<lparr>priv_timestamp := 42\<rparr>) sample_context
        (XmlNode XML_ELEMENT_NODE ''release'' [] ([sample_location] @ sample_size_no_type # [sample_location]) '''')
      = as_release_load_from_xml sample_externals (as_release_init\<lparr>priv_timestamp := 42\<rparr>) sample_context
        (XmlNode XML_ELEMENT_NODE ''release'' [] ([sample_location] @ [sample_location]) '''')
   \<and> as_checksum_load_from_xml sample_externals sample_context sample_checksum_rejected = None
   \<and> as_release_load_from_xml sample_externals (as_release_init\<lparr>priv_timestamp := 42\<rparr>) sample_context
        (XmlNode XML_ELEMENT_NODE ''release'' [] ([sample_location] @ sample_checksum_rejected # [sample_location]) '''')
      = as_release_load_from_xml sample_externals (as_release_init\<lparr>priv_timestamp := 42\<rparr>) sample_context
        (XmlNode XML_ELEMENT_NODE ''release'' [] ([sample_location] @ [sample_location]) '''')
   \<and> as_release_load_from_yaml sample_externals (as_release_init\<lparr>priv_timestamp := 42\<rparr>) sample_context
        (GNode None ([sample_yaml_version] @ sample_yaml_bad_date # [sample_yaml_timestamp]))
      = as_release_load_from_yaml sample_externals (as_release_init\<lparr>priv_timestamp := 42\<rparr>) sample_context
        (GNode None ([sample_yaml_version] @ [sample_yaml_timestamp]))"
proof -
  let ?X = sample_externals and ?r = "as_release_init\<lparr>priv_timestamp := 42\<rparr>"
  have date: "xmlGetProp sample_release_bad_date ''date'' = Some ''yesterday''"
    and iso: "as_iso8601_to_datetime ?X (Some ''yesterday'') = None"
    and ts: "xmlGetProp sample_release_bad_date ''timestamp'' = None"
    by (simp_all add: xmlGetProp_def sample_release_bad_date_def sample_externals_def)
  have sz1: "xn_type sample_size_unknown_type = XML_ELEMENT_NODE \<and> xn_name sample_size_unknown_type = ''size''
      \<and> as_size_kind_from_string (xmlGetProp sample_size_unknown_type ''type'') = AS_SIZE_KIND_UNKNOWN"
    by (simp add: sample_size_unknown_type_def xmlGetProp_def as_size_kind_from_string_def)
  have sz2: "xn_type sample_size_no_type = XML_ELEMENT_NODE \<and> xn_name sample_size_no_type = ''size''
      \<and> as_size_kind_from_string (xmlGetProp sample_size_no_type ''type'') = AS_SIZE_KIND_UNKNOWN"
    by (simp add: sample_size_no_type_def xmlGetProp_def as_size_kind_from_string_def)
  have cs: "xn_type sample_checksum_rejected = XML_ELEMENT_NODE \<and> xn_name sample_checksum_rejected = ''checksum''
      \<and> as_checksum_load_from_xml ?X sample_context sample_checksum_rejected = None"
    by (simp add: sample_checksum_rejected_def xmlGetProp_def sample_externals_def)
  have yd: "as_yaml_node_get_key ?X sample_yaml_bad_date = Some ''date''
      \<and> as_iso8601_to_datetime ?X (as_yaml_node_get_value ?X sample_yaml_bad_date) = None"
    by (simp add: sample_yaml_bad_date_def sample_externals_def)
  have yv: "\<forall>n \<in> set (gn_children (GNode None [sample_yaml_version, sample_yaml_bad_date, sample_yaml_timestamp])).
      as_yaml_node_get_key ?X n = Some ''unix-timestamp'' \<longrightarrow> as_yaml_node_get_value ?X n \<noteq> None"
    by (simp add: sample_yaml_version_def sample_yaml_bad_date_def sample_yaml_timestamp_def
        sample_externals_def)
  note T = field_failures_skipped [where X = "?X" and r = "?r" and ctx = sample_context
      and ty = XML_ELEMENT_NODE and nm = "''release''" and ps = "[]" and tx = "''''"
      and csa = "[sample_location]" and csb = "[sample_location]"
      and yd = None and nsa = "[sample_yaml_version]" and nsb = "[sample_yaml_timestamp]"
      and n = sample_yaml_bad_date and d = "''yesterday''" and node = sample_release_bad_date
      and ynode = "GNode None [sample_yaml_version, sample_yaml_bad_date, sample_yaml_timestamp]"]
  from T [where c = sample_size_unknown_type] T [where c = sample_size_no_type]
    T [where c = sample_checksum_rejected] date iso ts sz1 sz2 cs yd yv
  show ?thesis by simp
qed

subsection \<open>The failure that is fatal\<close>

text \<open>
  The premise on \<open>unix-timestamp\<close> entries cannot be dropped. The loader passes the value
  of such an entry to \<open>atol\<close> without a \<open>NULL\<close> test, so a mapping that holds one without
  a value makes the load fault, whatever comes before or after the entry.
\<close>

lemma load_yaml_unix_timestamp_null:
  assumes "as_yaml_node_get_key X n = Some ''unix-timestamp''"
    and "as_yaml_node_get_value X n = None"
  shows "as_release_load_from_yaml X r ctx (GNode yd (nsa @ n # nsb)) = None"
proof -
  have "load_yaml_entry X ctx n r' = None" for r'
    using assms by (simp add: load_yaml_entry_def)
  then show ?thesis
    by (simp add: as_release_load_from_yaml_def load_yaml_entries_append split: option.splits)
qed

text \<open>
  C9. Field-level failures are meant never to be fatal, and the loaders are to return
  \<open>TRUE\<close> for every parent node. The YAML loader does not: on the mapping with a
  \<open>version\<close> entry and a \<open>unix-timestamp\<close> entry that has no value it faults in
  \<open>atol (NULL)\<close> and returns nothing. The sibling branches do what this one misses: the
  mapping with \<open>type\<close>, \<open>version\<close>, \<open>urgency\<close> and \<open>date\<close> entries that all lack a value
  loads, returns \<open>TRUE\<close>, and leaves the kind Unknown, the version unset, the urgency
  Unknown and the timestamp as it was.
\<close>

theorem yaml_unix_timestamp_without_value_faults:
  "as_release_load_from_yaml sample_externals as_release_init sample_context
     (GNode None [sample_yaml_version, sample_yaml_no_value ''unix-timestamp'']) = None
   \<and> as_release_load_from_yaml sample_externals (as_release_init\<lparr>priv_timestamp := 42\<rparr>) sample_context
       (GNode None [sample_yaml_no_value ''type'', sample_yaml_no_value ''version'',
                    sample_yaml_no_value ''urgency'', sample_yaml_no_value ''date''])
     = Some (True,
         as_release_init
           \<lparr>priv_timestamp := 42, priv_context := Some sample_context,
            priv_kind := AS_RELEASE_KIND_UNKNOWN, priv_version := None,
            priv_urgency := AS_URGENCY_KIND_UNKNOWN\<rparr>)"
  by (simp add: as_release_load_from_yaml_def load_yaml_entry_def sample_externals_def
      sample_yaml_version_def sample_yaml_no_value_def as_release_set_context_def
      as_release_set_version_def as_release_kind_from_string_def as_release_init_def
      AS_URGENCY_KIND_UNKNOWN_def)

section \<open>Properties of the binary cache codec\<close>

lemma fold_set_size:
  "fold (\<lambda>(kind, sz) r'. as_release_set_size r' sz kind) es r =
     r\<lparr>priv_size := store_sizes es (priv_size r)\<rparr>"
  unfolding store_sizes_def
  by (induction es arbitrary: r) (auto simp: as_release_set_size_def)

lemma fold_add_checksum:
  "fold (\<lambda>inner_child r'.
           case as_checksum_set_from_variant inner_child of
             Some cs \<Rightarrow> as_release_add_checksum r' cs
           | None \<Rightarrow> r') es r =
     r\<lparr>priv_checksums := priv_checksums r @ map (\<lambda>e. \<lparr>cs_kind = fst e, cs_value = snd e\<rparr>) es\<rparr>"
  by (induction es arbitrary: r)
     (simp_all add: as_checksum_set_from_variant_def as_release_add_checksum_def)

lemma load_variant_sizes_eq:
  "load_variant_sizes tmp r = r\<lparr>priv_size := sizes_from_variant tmp (priv_size r)\<rparr>"
  by (simp add: load_variant_sizes_def sizes_from_variant_def fold_set_size
      split: option.splits GVariant.splits)

lemma load_variant_checksums_eq:
  "load_variant_checksums tmp r = r\<lparr>priv_checksums := checksums_from_variant tmp (priv_checksums r)\<rparr>"
  by (simp add: load_variant_checksums_def checksums_from_variant_def fold_add_checksum
      split: option.splits GVariant.splits)

lemma set_from_variant_eq:
  "as_release_set_from_variant r v loc =
     (True,
      r\<lparr>priv_active_locale_override := loc,
        priv_kind := as_variant_get_dict_uint32 (g_variant_dict_init v) ''kind'',
        priv_version := as_variant_get_dict_mstr (g_variant_dict_init v) ''version'',
        priv_timestamp :=
          g_variant_get_uint64
            (g_variant_dict_lookup_value (g_variant_dict_init v) ''timestamp'' G_VARIANT_TYPE_UINT64),
        priv_urgency := as_variant_get_dict_uint32 (g_variant_dict_init v) ''urgency'',
        priv_description :=
          (priv_description r)
            ((case loc of
                None \<Rightarrow> as_release_get_active_locale (as_release_set_active_locale r None)
              | Some l \<Rightarrow> l)
             \<mapsto> as_variant_get_dict_mstr (g_variant_dict_init v) ''description''),
        priv_locations :=
          as_variant_to_string_ptrarray_by_dict (g_variant_dict_init v) ''locations'' (priv_locations r),
        priv_size :=
          sizes_from_variant
            (g_variant_dict_lookup_value (g_variant_dict_init v) ''sizes'' G_VARIANT_TYPE_DICTIONARY)
            (priv_size r),
        priv_checksums :=
          checksums_from_variant
            (g_variant_dict_lookup_value (g_variant_dict_init v) ''checksums'' G_VARIANT_TYPE_DICTIONARY)
            (priv_checksums r)\<rparr>)"
  by (cases loc)
     (simp_all add: as_release_set_from_variant_def Let_def as_release_set_description_def
        as_release_set_version_def as_release_set_active_locale_def as_release_get_active_locale_def
        load_variant_sizes_eq load_variant_checksums_eq cong: option.case_cong)


lemma dict_init_absent:
  "key \<notin> fst ` set v \<Longrightarrow> g_variant_dict_init v key = None"
  by (simp add: g_variant_dict_init_def map_of_eq_None_iff)

lemma dict_init_without_key:
  "g_variant_dict_init (without_key key v) k = (if k = key then None else g_variant_dict_init v k)"
proof -
  have "map_of (filter (\<lambda>kv. fst kv \<noteq> key) xs) k = (if k = key then None else map_of xs k)"
    for xs :: "(string \<times> GVariant) list"
    by (induction xs) auto
  then show ?thesis
    by (simp add: g_variant_dict_init_def without_key_def rev_filter)
qed

lemma lookup_without_key:
  "g_variant_dict_lookup_value (g_variant_dict_init (without_key key v)) k ty
   = (if k = key then None else g_variant_dict_lookup_value (g_variant_dict_init v) k ty)"
  by (simp add: g_variant_dict_lookup_value_def dict_init_without_key)

lemma lookup_absent:
  "key \<notin> fst ` set v \<Longrightarrow> g_variant_dict_lookup_value (g_variant_dict_init v) key ty = None"
  by (simp add: g_variant_dict_lookup_value_def dict_init_absent)

lemmas variant_getters =
  as_variant_get_dict_uint32_def as_variant_get_dict_mstr_def g_variant_get_uint64_def
  as_variant_to_string_ptrarray_by_dict_def sizes_from_variant_def checksums_from_variant_def

text \<open>
  C2. Loading a cache entry always returns \<open>TRUE\<close>. When the key \<open>kind\<close>, \<open>timestamp\<close> or
  \<open>urgency\<close> is absent from the entry, the kind is Unknown, the timestamp is \<open>0\<close>, the
  urgency is Unknown. For each of the eight keys, loading the entry without that key gives
  the record that loading the entry gives, except for the field of that key: zero for
  \<open>kind\<close>, \<open>timestamp\<close> and \<open>urgency\<close>, unset for \<open>version\<close>, a \<open>NULL\<close> text under the
  target locale for \<open>description\<close>, and the locations, checksums and sizes the record
  had before for \<open>locations\<close>, \<open>checksums\<close> and \<open>sizes\<close>.
\<close>

theorem cache_absent_keys:
  "fst (as_release_set_from_variant r v loc) = True
   \<and> (''kind'' \<notin> fst ` set v
      \<longrightarrow> priv_kind (snd (as_release_set_from_variant r v loc)) = AS_RELEASE_KIND_UNKNOWN)
   \<and> (''timestamp'' \<notin> fst ` set v
      \<longrightarrow> priv_timestamp (snd (as_release_set_from_variant r v loc)) = 0)
   \<and> (''urgency'' \<notin> fst ` set v
      \<longrightarrow> priv_urgency (snd (as_release_set_from_variant r v loc)) = AS_URGENCY_KIND_UNKNOWN)
   \<and> snd (as_release_set_from_variant r (without_key ''kind'' v) loc)
      = (snd (as_release_set_from_variant r v loc))\<lparr>priv_kind := AS_RELEASE_KIND_UNKNOWN\<rparr>
   \<and> snd (as_release_set_from_variant r (without_key ''timestamp'' v) loc)
      = (snd (as_release_set_from_variant r v loc))\<lparr>priv_timestamp := 0\<rparr>
   \<and> snd (as_release_set_from_variant r (without_key ''urgency'' v) loc)
      = (snd (as_release_set_from_variant r v loc))\<lparr>priv_urgency := AS_URGENCY_KIND_UNKNOWN\<rparr>
   \<and> snd (as_release_set_from_variant r (without_key ''version'' v) loc)
      = (snd (as_release_set_from_variant r v loc))\<lparr>priv_version := None\<rparr>
   \<and> snd (as_release_set_from_variant r (without_key ''description'' v) loc)
      = (snd (as_release_set_from_variant r v loc))
          \<lparr>priv_description :=
             (priv_description r)
               ((case loc of
                   None \<Rightarrow> as_release_get_active_locale (as_release_set_active_locale r None)
                 | Some l \<Rightarrow> l) \<mapsto> None)\<rparr>
   \<and> snd (as_release_set_from_variant r (without_key ''locations'' v) loc)
      = (snd (as_release_set_from_variant r v loc))\<lparr>priv_locations := priv_locations r\<rparr>
   \<and> snd (as_release_set_from_variant r (without_key ''checksums'' v) loc)
      = (snd (as_release_set_from_variant r v loc))\<lparr>priv_checksums := priv_checksums r\<rparr>
   \<and> snd (as_release_set_from_variant r (without_key ''sizes'' v) loc)
      = (snd (as_release_set_from_variant r v loc))\<lparr>priv_size := priv_size r\<rparr>"
proof -
  have absent: "''kind'' \<notin> fst ` set v
        \<longrightarrow> priv_kind (snd (as_release_set_from_variant r v loc)) = AS_RELEASE_KIND_UNKNOWN"
      "''timestamp'' \<notin> fst ` set v
        \<longrightarrow> priv_timestamp (snd (as_release_set_from_variant r v loc)) = 0"
      "''urgency'' \<notin> fst ` set v
        \<longrightarrow> priv_urgency (snd (as_release_set_from_variant r v loc)) = AS_URGENCY_KIND_UNKNOWN"
    by (simp_all add: set_from_variant_eq variant_getters lookup_absent
        AS_RELEASE_KIND_UNKNOWN_def AS_URGENCY_KIND_UNKNOWN_def)
  have without:
      "snd (as_release_set_from_variant r (without_key ''kind'' v) loc)
       = (snd (as_release_set_from_variant r v loc))\<lparr>priv_kind := AS_RELEASE_KIND_UNKNOWN\<rparr>"
      "snd (as_release_set_from_variant r (without_key ''timestamp'' v) loc)
       = (snd (as_release_set_from_variant r v loc))\<lparr>priv_timestamp := 0\<rparr>"
      "snd (as_release_set_from_variant r (without_key ''urgency'' v) loc)
       = (snd (as_release_set_from_variant r v loc))\<lparr>priv_urgency := AS_URGENCY_KIND_UNKNOWN\<rparr>"
      "snd (as_release_set_from_variant r (without_key ''version'' v) loc)
       = (snd (as_release_set_from_variant r v loc))\<lparr>priv_version := None\<rparr>"
      "snd (as_release_set_from_variant r (without_key ''description'' v) loc)
       = (snd (as_release_set_from_variant r v loc))
          \<lparr>priv_description :=
             (priv_description r)
               ((case loc of
                   None \<Rightarrow> as_release_get_active_locale (as_release_set_active_locale r None)
                 | Some l \<Rightarrow> l) \<mapsto> None)\<rparr>"
      "snd (as_release_set_from_variant r (without_key ''locations'' v) loc)
       = (snd (as_release_set_from_variant r v loc))\<lparr>priv_locations := priv_locations r\<rparr>"
      "snd (as_release_set_from_variant r (without_key ''checksums'' v) loc)
       = (snd (as_release_set_from_variant r v loc))\<lparr>priv_checksums := priv_checksums r\<rparr>"
      "snd (as_release_set_from_variant r (without_key ''sizes'' v) loc)
       = (snd (as_release_set_from_variant r v loc))\<lparr>priv_size := priv_size r\<rparr>"
    by (simp_all add: set_from_variant_eq variant_getters lookup_without_key
        AS_RELEASE_KIND_UNKNOWN_def AS_URGENCY_KIND_UNKNOWN_def)
  show ?thesis
    using absent without by (simp add: set_from_variant_eq)
qed

theorem cache_absent_keys_witness:
  "priv_kind as_release_init = AS_RELEASE_KIND_STABLE
   \<and> priv_kind (snd (as_release_set_from_variant as_release_init
        [(''version'', VMaybeString (Some ''1.0''))] (Some ''de''))) = AS_RELEASE_KIND_UNKNOWN
   \<and> priv_timestamp (snd (as_release_set_from_variant as_release_init
        [(''version'', VMaybeString (Some ''1.0''))] (Some ''de''))) = 0
   \<and> priv_urgency (snd (as_release_set_from_variant as_release_init
        [(''version'', VMaybeString (Some ''1.0''))] (Some ''de''))) = AS_URGENCY_KIND_UNKNOWN
   \<and> fst (as_release_set_from_variant as_release_init
        [(''version'', VMaybeString (Some ''1.0''))] (Some ''de''))"
  using cache_absent_keys [of as_release_init "[(''version'', VMaybeString (Some ''1.0''))]" "Some ''de''"]
  by (simp add: as_release_init_def)

lemma to_variant_dict:
  "g_variant_dict_init (as_release_to_variant r) ''kind'' = Some (VUint32 (priv_kind r))"
  "g_variant_dict_init (as_release_to_variant r) ''version'' = Some (VMaybeString (priv_version r))"
  "g_variant_dict_init (as_release_to_variant r) ''timestamp'' = Some (VUint64 (priv_timestamp r))"
  "g_variant_dict_init (as_release_to_variant r) ''urgency'' = Some (VUint32 (priv_urgency r))"
  "g_variant_dict_init (as_release_to_variant r) ''description''
     = Some (VMaybeString (as_release_get_description r))"
  "g_variant_dict_init (as_release_to_variant r) ''locations''
     = (if priv_locations r = [] then None else Some (VStringArray (priv_locations r)))"
  "g_variant_dict_init (as_release_to_variant r) ''checksums''
     = (if priv_checksums r = [] then None
        else Some (VChecksumDict (fold as_checksum_to_variant (priv_checksums r) [])))"
  "g_variant_dict_init (as_release_to_variant r) ''sizes''
     = (if build_sizes r = [] then None else Some (VSizeDict (build_sizes r)))"
  by (simp_all add: as_release_to_variant_def g_variant_dict_init_def Let_def
      as_variant_from_string_ptrarray_def as_variant_mstring_new_def)

lemma to_variant_description_pair:
  "filter (\<lambda>kv. fst kv = ''description'') (as_release_to_variant r)
   = [(''description'', VMaybeString (as_release_get_description r))]"
  by (simp add: as_release_to_variant_def Let_def
      as_variant_from_string_ptrarray_def as_variant_mstring_new_def)

lemma store_build_sizes:
  assumes "release_invariant r"
  shows "store_sizes (build_sizes r) (replicate (unat AS_SIZE_KIND_LAST) 0) = priv_size r"
proof -
  from assms have len: "length (priv_size r) = 3" and zero: "priv_size r ! 0 = 0"
    by (simp_all add: release_invariant_def size_array_ok_def AS_SIZE_KIND_LAST_def)
  then obtain b c where sz: "priv_size r = [0, b, c]"
    by (cases "priv_size r"; simp; cases "tl (priv_size r)"; simp; cases "tl (tl (priv_size r))"; simp)
  have last: "unat AS_SIZE_KIND_LAST = 3"
    by (simp add: AS_SIZE_KIND_LAST_def)
  have idx: "[0 ..< unat AS_SIZE_KIND_LAST] = [0, 1, 2]"
    unfolding last by (simp add: upt_conv_Cons)
  have rep: "replicate (unat AS_SIZE_KIND_LAST) (0 :: guint64) = [0, 0, 0]"
    unfolding last by (simp add: numeral_3_eq_3)
  show ?thesis
    unfolding build_sizes_def idx rep
    by (auto simp: sz store_sizes_def as_release_get_size_def AS_SIZE_KIND_LAST_def word_gt_0)
qed

lemma build_sizes_cong:
  "priv_size r' = priv_size r \<Longrightarrow> build_sizes r' = build_sizes r"
  by (simp add: build_sizes_def as_release_get_size_def)

lemma update_fresh:
  "k \<notin> fst ` set al \<Longrightarrow> AList.update k v al = al @ [(k, v)]"
  by (induction al) auto

lemma distinct_fold_checksums:
  "distinct (map fst acc) \<Longrightarrow> distinct (map fst (fold as_checksum_to_variant css acc))"
  by (induction css arbitrary: acc) (simp_all add: as_checksum_to_variant_def distinct_update)

lemma fold_update_distinct:
  "distinct (map fst (acc @ es)) \<Longrightarrow>
   fold (\<lambda>e. AList.update (fst e) (snd e)) es acc = acc @ es"
proof (induction es arbitrary: acc)
  case Nil
  then show ?case by simp
next
  case (Cons e es)
  from Cons.prems have fresh: "fst e \<notin> fst ` set acc"
    by auto
  have "fold (\<lambda>e. AList.update (fst e) (snd e)) (e # es) acc
        = fold (\<lambda>e. AList.update (fst e) (snd e)) es (acc @ [e])"
    using update_fresh [OF fresh, of "snd e"] by simp
  also have "\<dots> = (acc @ [e]) @ es"
    using Cons.prems by (intro Cons.IH) simp
  finally show ?case by simp
qed

lemma checksums_roundtrip:
  "fold as_checksum_to_variant
     (map (\<lambda>e. \<lparr>cs_kind = fst e, cs_value = snd e\<rparr>) (fold as_checksum_to_variant css [])) []
   = fold as_checksum_to_variant css []"
proof -
  have d: "distinct (map fst ([] @ fold as_checksum_to_variant css []))"
    using distinct_fold_checksums [of "[]" css] by simp
  have "fold as_checksum_to_variant (map (\<lambda>e. \<lparr>cs_kind = fst e, cs_value = snd e\<rparr>) es) acc
        = fold (\<lambda>e. AList.update (fst e) (snd e)) es acc" for es acc
    by (induction es arbitrary: acc) (simp_all add: as_checksum_to_variant_def)
  then show ?thesis
    using fold_update_distinct [OF d] by simp
qed

lemma fold_checksums_nonempty:
  "fold as_checksum_to_variant css [] = [] \<longleftrightarrow> css = []"
proof -
  have ne: "fold as_checksum_to_variant cs acc \<noteq> []" if "acc \<noteq> []" for acc cs
    using that by (induction cs arbitrary: acc) (simp_all add: as_checksum_to_variant_def)
  show ?thesis
    by (cases css) (simp_all add: as_checksum_to_variant_def ne)
qed

lemma reload_fields:
  assumes "release_invariant r"
  shows "priv_kind (snd (as_release_set_from_variant as_release_init (as_release_to_variant r) loc)) = priv_kind r"
    and "priv_version (snd (as_release_set_from_variant as_release_init (as_release_to_variant r) loc)) = priv_version r"
    and "priv_timestamp (snd (as_release_set_from_variant as_release_init (as_release_to_variant r) loc)) = priv_timestamp r"
    and "priv_urgency (snd (as_release_set_from_variant as_release_init (as_release_to_variant r) loc)) = priv_urgency r"
    and "priv_locations (snd (as_release_set_from_variant as_release_init (as_release_to_variant r) loc)) = priv_locations r"
    and "priv_size (snd (as_release_set_from_variant as_release_init (as_release_to_variant r) loc)) = priv_size r"
    and "priv_checksums (snd (as_release_set_from_variant as_release_init (as_release_to_variant r) loc))
         = map (\<lambda>e. \<lparr>cs_kind = fst e, cs_value = snd e\<rparr>) (fold as_checksum_to_variant (priv_checksums r) [])"
proof -
  have init: "priv_size as_release_init = replicate (unat AS_SIZE_KIND_LAST) 0"
    "priv_locations as_release_init = []" "priv_checksums as_release_init = []"
    by (simp_all add: as_release_init_def)
  have sizes: "sizes_from_variant
      (g_variant_dict_lookup_value (g_variant_dict_init (as_release_to_variant r)) ''sizes'' G_VARIANT_TYPE_DICTIONARY)
      (replicate (unat AS_SIZE_KIND_LAST) 0) = priv_size r"
    using store_build_sizes [OF assms]
    by (auto simp: sizes_from_variant_def g_variant_dict_lookup_value_def to_variant_dict store_sizes_def)
  show "priv_kind (snd (as_release_set_from_variant as_release_init (as_release_to_variant r) loc)) = priv_kind r"
    and "priv_version (snd (as_release_set_from_variant as_release_init (as_release_to_variant r) loc)) = priv_version r"
    and "priv_timestamp (snd (as_release_set_from_variant as_release_init (as_release_to_variant r) loc)) = priv_timestamp r"
    and "priv_urgency (snd (as_release_set_from_variant as_release_init (as_release_to_variant r) loc)) = priv_urgency r"
    and "priv_locations (snd (as_release_set_from_variant as_release_init (as_release_to_variant r) loc)) = priv_locations r"
    and "priv_checksums (snd (as_release_set_from_variant as_release_init (as_release_to_variant r) loc))
         = map (\<lambda>e. \<lparr>cs_kind = fst e, cs_value = snd e\<rparr>) (fold as_checksum_to_variant (priv_checksums r) [])"
    by (simp_all add: set_from_variant_eq variant_getters g_variant_dict_lookup_value_def
        to_variant_dict init)
  show "priv_size (snd (as_release_set_from_variant as_release_init (as_release_to_variant r) loc)) = priv_size r"
    by (simp add: set_from_variant_eq init sizes)
qed


lemma reload_description:
  "as_release_get_description
     (snd (as_release_set_from_variant as_release_init (as_release_to_variant r) loc))
   = as_release_get_description r"
proof -
  let ?r' = "snd (as_release_set_from_variant as_release_init (as_release_to_variant r) loc)"
  let ?L = "case loc of None \<Rightarrow> ''C'' | Some l \<Rightarrow> l"
  have desc: "priv_description ?r' = [?L \<mapsto> as_release_get_description r]"
    by (cases loc)
       (simp_all add: set_from_variant_eq as_variant_get_dict_mstr_def g_variant_dict_lookup_value_def
          to_variant_dict as_release_get_active_locale_def as_release_set_active_locale_def
          as_release_init_def)
  have act: "as_release_get_active_locale ?r' = ?L"
    by (cases loc) (simp_all add: set_from_variant_eq as_release_get_active_locale_def as_release_init_def)
  show ?thesis
    unfolding as_release_get_description_def [of "?r'"] desc act
    by (auto simp: g_hash_table_lookup_def Let_def)
qed

lemma active_locale_override:
  "priv_active_locale_override r = Some l \<Longrightarrow> as_release_get_active_locale r = l"
  by (auto simp: as_release_get_active_locale_def split: option.splits)

lemma reload_description_locale:
  "g_hash_table_lookup
     (priv_description (snd (as_release_set_from_variant r0 (as_release_to_variant r) (Some l)))) l
   = as_release_get_description r"
  "as_release_get_active_locale (snd (as_release_set_from_variant r0 (as_release_to_variant r) (Some l))) = l"
  by (simp_all add: set_from_variant_eq as_variant_get_dict_mstr_def g_variant_dict_lookup_value_def
      to_variant_dict active_locale_override g_hash_table_lookup_def)

text \<open>
  C7. The cache entry of a release has exactly one \<open>description\<close> pair, and it holds the
  one text \<open>as_release_get_description\<close> returns at that moment (the text of the active
  locale, or the \<open>"C"\<close> text). When that text is \<open>t\<close>, the entry stores \<open>t\<close>, and loading
  the entry into any release with any locale \<open>l\<close> makes \<open>l\<close> the active locale, stores
  \<open>t\<close> as the text of \<open>l\<close> and makes \<open>t\<close> the description: a release whose \<open>"de"\<close> text is
  \<open>"Text"\<close> and whose active locale is \<open>"de"\<close> gives \<open>"Text"\<close> back under \<open>"de"\<close> and under
  \<open>"fr"\<close> alike.
\<close>

theorem cache_single_description:
  "filter (\<lambda>kv. fst kv = ''description'') (as_release_to_variant r)
     = [(''description'', as_variant_mstring_new (as_release_get_description r))]
   \<and> (as_release_get_description r = Some t \<longrightarrow>
        g_variant_dict_init (as_release_to_variant r) ''description'' = Some (VMaybeString (Some t))
        \<and> as_release_get_active_locale
            (snd (as_release_set_from_variant r0 (as_release_to_variant r) (Some l))) = l
        \<and> g_hash_table_lookup
            (priv_description (snd (as_release_set_from_variant r0 (as_release_to_variant r) (Some l)))) l
          = Some t
        \<and> as_release_get_description
            (snd (as_release_set_from_variant r0 (as_release_to_variant r) (Some l))) = Some t)"
proof -
  have "as_release_get_description
          (snd (as_release_set_from_variant r0 (as_release_to_variant r) (Some l))) = Some t"
    if "as_release_get_description r = Some t"
    using that reload_description_locale [of r0 r l]
    by (simp add: as_release_get_description_def)
  then show ?thesis
    by (simp add: to_variant_description_pair as_variant_mstring_new_def to_variant_dict
        reload_description_locale)
qed

theorem cache_single_description_witness:
  "as_release_get_active_locale sample_release = ''de''
   \<and> priv_description sample_release ''de'' = Some (Some ''Text'')
   \<and> as_release_get_description sample_release = Some ''Text''
   \<and> g_variant_dict_init (as_release_to_variant sample_release) ''description''
       = Some (VMaybeString (Some ''Text''))
   \<and> as_release_get_description
       (snd (as_release_set_from_variant as_release_init (as_release_to_variant sample_release) (Some ''de'')))
       = Some ''Text''
   \<and> as_release_get_description
       (snd (as_release_set_from_variant as_release_init (as_release_to_variant sample_release) (Some ''fr'')))
       = Some ''Text''
   \<and> g_hash_table_lookup (priv_description
       (snd (as_release_set_from_variant as_release_init (as_release_to_variant sample_release) (Some ''fr''))))
       ''fr'' = Some ''Text''"
proof -
  have d: "as_release_get_description sample_release = Some ''Text''"
    and a: "as_release_get_active_locale sample_release = ''de''"
    and p: "priv_description sample_release ''de'' = Some (Some ''Text'')"
    by (simp_all add: sample_release_def as_release_init_def as_release_get_description_def
        as_release_get_active_locale_def g_hash_table_lookup_def)
  from cache_single_description [of sample_release "''Text''" as_release_init "''de''"]
    cache_single_description [of sample_release "''Text''" as_release_init "''fr''"] d a p
  show ?thesis by simp
qed

lemma to_variant_cong:
  assumes "priv_kind a = priv_kind b" and "priv_version a = priv_version b"
    and "priv_timestamp a = priv_timestamp b" and "priv_urgency a = priv_urgency b"
    and "as_release_get_description a = as_release_get_description b"
    and "priv_locations a = priv_locations b"
    and "build_sizes a = build_sizes b"
    and "fold as_checksum_to_variant (priv_checksums a) [] = fold as_checksum_to_variant (priv_checksums b) []"
    and "(priv_checksums a = []) = (priv_checksums b = [])"
  shows "as_release_to_variant a = as_release_to_variant b"
  using assms by (simp add: as_release_to_variant_def)

text \<open>
  C8. For every release that satisfies the invariant and every locale given to the loader:
  writing the release to a cache entry, loading that entry into a new release and writing
  the new release gives the first entry again, pair by pair. The entry is the structure the
  bytes of the cache are produced from.
\<close>

theorem cache_idempotent:
  "release_invariant r \<Longrightarrow>
   as_release_to_variant
     (snd (as_release_set_from_variant as_release_init (as_release_to_variant r) loc))
   = as_release_to_variant r"
proof (rule to_variant_cong)
  assume inv: "release_invariant r"
  let ?r' = "snd (as_release_set_from_variant as_release_init (as_release_to_variant r) loc)"
  note f = reload_fields [OF inv, of loc]
  show "priv_kind ?r' = priv_kind r" and "priv_version ?r' = priv_version r"
    and "priv_timestamp ?r' = priv_timestamp r" and "priv_urgency ?r' = priv_urgency r"
    and "priv_locations ?r' = priv_locations r"
    by (rule f)+
  show "as_release_get_description ?r' = as_release_get_description r"
    by (rule reload_description)
  show "build_sizes ?r' = build_sizes r"
    by (rule build_sizes_cong) (rule f)
  show "fold as_checksum_to_variant (priv_checksums ?r') [] = fold as_checksum_to_variant (priv_checksums r) []"
    by (simp add: f checksums_roundtrip)
  show "(priv_checksums ?r' = []) = (priv_checksums r = [])"
    by (simp add: f fold_checksums_nonempty)
qed

theorem cache_idempotent_witness:
  "release_invariant sample_release
   \<and> as_release_to_variant sample_release =
       [(''kind'', VUint32 2), (''version'', VMaybeString (Some ''1.2'')),
        (''timestamp'', VUint64 1000), (''urgency'', VUint32 0),
        (''description'', VMaybeString (Some ''Text'')),
        (''locations'', VStringArray [''https://example.org/a'']),
        (''checksums'', VChecksumDict [(1, ''cd'')]),
        (''sizes'', VSizeDict [(1, 2048)])]
   \<and> as_release_to_variant
       (snd (as_release_set_from_variant as_release_init (as_release_to_variant sample_release) (Some ''fr'')))
     = as_release_to_variant sample_release"
proof -
  have inv: "release_invariant sample_release"
    by (simp add: release_invariant_def size_array_ok_def sample_release_def as_release_init_def
        AS_SIZE_KIND_LAST_def)
  have last: "unat AS_SIZE_KIND_LAST = 3"
    by (simp add: AS_SIZE_KIND_LAST_def)
  have idx: "[0 ..< unat AS_SIZE_KIND_LAST] = [0, 1, 2]"
    unfolding last by (simp add: upt_conv_Cons)
  have v: "as_release_to_variant sample_release =
       [(''kind'', VUint32 2), (''version'', VMaybeString (Some ''1.2'')),
        (''timestamp'', VUint64 1000), (''urgency'', VUint32 0),
        (''description'', VMaybeString (Some ''Text'')),
        (''locations'', VStringArray [''https://example.org/a'']),
        (''checksums'', VChecksumDict [(1, ''cd'')]),
        (''sizes'', VSizeDict [(1, 2048)])]"
    unfolding as_release_to_variant_def build_sizes_def idx
    by (simp add: sample_release_def as_release_init_def as_release_get_description_def
        as_release_get_active_locale_def g_hash_table_lookup_def as_variant_mstring_new_def
        as_variant_from_string_ptrarray_def as_checksum_to_variant_def as_release_get_size_def
        AS_SIZE_KIND_LAST_def AS_RELEASE_KIND_DEVELOPMENT_def AS_URGENCY_KIND_UNKNOWN_def)
  from cache_idempotent [OF inv, of "Some ''fr''"] inv v show ?thesis by simp
qed


subsection \<open>The invariant\<close>

text \<open>
  The invariant holds of a new release and is kept by \<open>as_release_set_size\<close> and by the
  three loaders, so it holds of every release the codecs are given.
\<close>

lemma invariant_init: "release_invariant as_release_init"
  by (simp add: release_invariant_def size_array_ok_def as_release_init_def AS_SIZE_KIND_LAST_def)

lemma invariant_size_only:
  "priv_size r' = priv_size r \<Longrightarrow> release_invariant r \<Longrightarrow> release_invariant r'"
  by (simp add: release_invariant_def size_array_ok_def)

lemma invariant_set_size:
  assumes "release_invariant r"
  shows "release_invariant (as_release_set_size r sz kind)"
proof (cases "kind < AS_SIZE_KIND_LAST \<and> kind \<noteq> 0")
  case True
  then have "unat kind \<noteq> 0"
    by (simp add: unat_eq_0)
  with assms True show ?thesis
    by (simp add: as_release_set_size_def release_invariant_def size_array_ok_def)
next
  case False
  with assms show ?thesis
    by (auto simp: as_release_set_size_def)
qed

lemma invariant_fold_set_size:
  "release_invariant r \<Longrightarrow>
   release_invariant (fold (\<lambda>(kind, sz) r'. as_release_set_size r' sz kind) es r)"
  by (induction es arbitrary: r) (auto simp: invariant_set_size)

lemma invariant_set_from_variant:
  assumes "release_invariant r"
  shows "release_invariant (snd (as_release_set_from_variant r v loc))"
proof -
  let ?tmp = "g_variant_dict_lookup_value (g_variant_dict_init v) ''sizes'' G_VARIANT_TYPE_DICTIONARY"
  have "release_invariant (load_variant_sizes ?tmp r)"
    using assms invariant_fold_set_size
    by (auto simp: load_variant_sizes_def split: option.splits GVariant.splits)
  moreover have "priv_size (snd (as_release_set_from_variant r v loc)) = priv_size (load_variant_sizes ?tmp r)"
    by (simp add: set_from_variant_eq load_variant_sizes_eq)
  ultimately show ?thesis
    by (rule invariant_size_only [rotated])
qed

lemma priv_size_fold_description_cb:
  "priv_size (fold as_release_parse_xml_metainfo_description_cb kvs r) = priv_size r"
  by (induction kvs arbitrary: r)
     (simp_all add: as_release_parse_xml_metainfo_description_cb_def as_release_set_description_def)

lemma invariant_load_xml_child:
  assumes "release_invariant r"
  shows "release_invariant (load_xml_child X ctx iter r)"
proof -
  have keep: "release_invariant r'" if "priv_size r' = priv_size r" for r'
    using that assms by (rule invariant_size_only)
  show ?thesis
    unfolding load_xml_child_def Let_def
    by (auto simp: assms invariant_set_size intro!: keep
        simp: as_release_add_location_def as_release_add_checksum_def as_release_set_description_def
          priv_size_fold_description_cb
        split: option.splits)
qed

lemma invariant_load_from_xml:
  assumes "release_invariant r"
  shows "release_invariant (snd (as_release_load_from_xml X r ctx node))"
proof -
  have start: "release_invariant (load_xml_attributes X node (as_release_set_context r (Some ctx)))"
    by (rule invariant_size_only [OF _ assms])
       (simp add: load_xml_attributes_def as_release_set_context_def as_release_set_version_def Let_def
          split: option.splits)
  have "release_invariant (fold (load_xml_child X ctx) cs r0)" if "release_invariant r0" for cs r0
    using that by (induction cs arbitrary: r0) (simp_all add: invariant_load_xml_child)
  with start show ?thesis
    by (simp add: as_release_load_from_xml_def)
qed

lemma priv_size_load_yaml_entries:
  "load_yaml_entries X ctx ns r = Some r' \<Longrightarrow> priv_size r' = priv_size r"
proof (induction ns arbitrary: r)
  case Nil
  then show ?case by simp
next
  case (Cons n ns)
  then obtain r1 where step: "load_yaml_entry X ctx n r = Some r1"
    and rest: "load_yaml_entries X ctx ns r1 = Some r'"
    by (auto split: option.splits)
  from step have "priv_size r1 = priv_size r"
    by (auto simp: load_yaml_entry_def Let_def as_release_set_version_def as_release_set_description_def
        split: if_splits option.splits)
  with Cons.IH [OF rest] show ?case by simp
qed

lemma invariant_load_from_yaml:
  assumes "release_invariant r" and "as_release_load_from_yaml X r ctx node = Some (ok, r')"
  shows "release_invariant r'"
proof -
  from assms(2) have "load_yaml_entries X ctx (gn_children node) (as_release_set_context r (Some ctx)) = Some r'"
    by (auto simp: as_release_load_from_yaml_def split: option.splits)
  then have "priv_size r' = priv_size r"
    using priv_size_load_yaml_entries by (fastforce simp: as_release_set_context_def)
  then show ?thesis
    using assms(1) by (rule invariant_size_only)
qed

end
